theory Spec2Isabelle
  imports Complex_Main "HOL-Library.Word" "HOL-Library.Sublist" "HOL-Library.Multiset"
begin

section \<open>Go values: errors, strings, numbers\<close>

text \<open>
  Go's \<^verbatim>\<open>error\<close> values as the product package produces and compares them.
  The three sentinels are compared by identity (\<^verbatim>\<open>==\<close>, \<^verbatim>\<open>errors.Is\<close>);
  \<^verbatim>\<open>fmt.Errorf\<close> makes a fresh error, which wraps another one only when its
  format ends in \<^verbatim>\<open>%w\<close>. \<open>DriverError\<close> is an error of the driver or of the
  database server, \<open>GoPanic\<close> a run-time panic.
\<close>

datatype goerr =
    SqlErrNoRows
  | ErrProductNotFound
  | ErrInvalidInput
  | DriverError string
  | Errorf string
  | Wrapf string goerr
  | GoPanic string

fun errors_Is :: "goerr \<Rightarrow> goerr \<Rightarrow> bool" where
  "errors_Is (Wrapf msg inner) target = (Wrapf msg inner = target \<or> errors_Is inner target)"
| "errors_Is err target = (err = target)"

text \<open>\<^verbatim>\<open>fmt.Sprintf("%d", n)\<close> for the non-negative argument counters.\<close>

definition digit_char :: "nat \<Rightarrow> char" where
  "digit_char d = ''0123456789'' ! d"

fun show_nat :: "nat \<Rightarrow> string" where
  "show_nat n = (if n < 10 then [digit_char n] else show_nat (n div 10) @ [digit_char (n mod 10)])"

declare show_nat.simps [simp del]

text \<open>\<^verbatim>\<open>strings.Join\<close> and \<^verbatim>\<open>strings.TrimSuffix\<close>.\<close>

fun Join :: "string list \<Rightarrow> string \<Rightarrow> string" where
  "Join [] sep = []"
| "Join [x] sep = x"
| "Join (x # y # ys) sep = x @ sep @ Join (y # ys) sep"

definition HasSuffix :: "string \<Rightarrow> string \<Rightarrow> bool" where
  "HasSuffix s suf = (length suf \<le> length s \<and> drop (length s - length suf) s = suf)"

definition TrimSuffix :: "string \<Rightarrow> string \<Rightarrow> string" where
  "TrimSuffix s suf = (if HasSuffix s suf then take (length s - length suf) s else s)"

text \<open>
  \<^verbatim>\<open>strconv.ParseUint(s, 10, 64)\<close>, \<^verbatim>\<open>strconv.ParseInt(s, 10, 64)\<close> and
  \<^verbatim>\<open>strconv.Atoi\<close> (Go's \<^verbatim>\<open>int\<close> taken as 64 bits wide). The functions return a
  value together with the error: a syntax error comes with 0, a range error with the
  nearest representable value, and the scan stops at the first digit that overflows.
\<close>

datatype numerr = ErrSyntax | ErrRange

definition digit_of :: "char \<Rightarrow> nat option" where
  "digit_of c = map_of (zip ''0123456789'' [0, 1, 2, 3, 4, 5, 6, 7, 8, 9]) c"

definition maxUint64 :: nat where
  "maxUint64 = 2 ^ 64 - 1"

fun ParseUint_loop :: "nat \<Rightarrow> string \<Rightarrow> nat \<times> numerr option" where
  "ParseUint_loop n [] = (n, None)"
| "ParseUint_loop n (c # cs) =
     (case digit_of c of
        None \<Rightarrow> (0, Some ErrSyntax)
      | Some d \<Rightarrow>
          if n * 10 + d > maxUint64 then (maxUint64, Some ErrRange)
          else ParseUint_loop (n * 10 + d) cs)"

definition ParseUint :: "string \<Rightarrow> nat \<times> numerr option" where
  "ParseUint s = (if s = [] then (0, Some ErrSyntax) else ParseUint_loop 0 s)"

definition ParseInt :: "string \<Rightarrow> int \<times> numerr option" where
  "ParseInt s =
     (if s = [] then (0, Some ErrSyntax)
      else
        let neg = (hd s = CHR ''-'');
            s' = (if hd s = CHR ''+'' \<or> hd s = CHR ''-'' then tl s else s);
            (un, err) = ParseUint s'
        in if err = Some ErrSyntax then (0, err)
           else if \<not> neg \<and> un \<ge> 2 ^ 63 then (2 ^ 63 - 1, Some ErrRange)
           else if neg \<and> un > 2 ^ 63 then (- (2 ^ 63), Some ErrRange)
           else (if neg then - int un else int un, None))"

definition Atoi :: "string \<Rightarrow> int \<times> numerr option" where
  "Atoi s = ParseInt s"

section \<open>The data model\<close>

text \<open>
  The structs of the product package. A pointer field is an \<open>option\<close> (\<open>None\<close> is
  \<^verbatim>\<open>nil\<close>), \<^verbatim>\<open>float64\<close> prices are rationals, \<^verbatim>\<open>time.Time\<close> is a count of clock
  ticks, and a slice is a list. A \<^verbatim>\<open>nil\<close> slice and an empty one are both the empty list;
  the driver sends the first as \<^verbatim>\<open>NULL\<close>, which the \<^verbatim>\<open>categories\<close> column refuses, and
  the second as an empty array, so what is proved about storing categories is stated
  for non-empty lists. Go's \<^verbatim>\<open>int\<close> is a 64-bit word read as a signed number.

  \<open>ProductFilter\<close> declares \<open>CategoryID\<close> as \<^verbatim>\<open>*int64\<close> and the handler fills it
  with a parsed integer, while the repository's \<open>List\<close> compares it with \<^verbatim>\<open>""\<close> and
  concatenates it with \<^verbatim>\<open>"%"\<close>, that is, uses it as a \<^verbatim>\<open>*string\<close>. The record
  leaves the type of the field open, and each function is modelled at the type it uses.
\<close>

record CreateProductInput =
  Name :: string
  Description :: string
  Price :: rat
  Categories :: "string list"

record UpdateProductInput =
  Name :: "string option"
  Description :: "string option"
  Price :: "rat option"
  Categories :: "string list option"

record 'c ProductFilter =
  CategoryID :: "'c option"
  MinPrice :: "rat option"
  MaxPrice :: "rat option"
  Search :: "string option"

record PaginationParams =
  Page :: "64 word"
  Limit :: "64 word"

record Product =
  ID :: int
  Name :: string
  Description :: string
  Price :: rat
  Categories :: "string list"
  CreatedAt :: nat
  UpdatedAt :: nat

section \<open>The validator\<close>

text \<open>
  \<^verbatim>\<open>validator.Struct\<close> checks each field of a struct against the rules of its
  \<^verbatim>\<open>validate\<close> tag and skips a field that has none. The only tags of the package are
  on the two \<^verbatim>\<open>int\<close> fields of \<open>PaginationParams\<close>; no field of
  \<open>CreateProductInput\<close> or \<open>UpdateProductInput\<close> has one.
\<close>

datatype vrule = Required | Min int | Max int

datatype vfield = NoTag | IntTag "vrule list" int

fun rule_ok :: "int \<Rightarrow> vrule \<Rightarrow> bool" where
  "rule_ok v Required = (v \<noteq> 0)"
| "rule_ok v (Min m) = (m \<le> v)"
| "rule_ok v (Max m) = (v \<le> m)"

fun field_ok :: "vfield \<Rightarrow> bool" where
  "field_ok NoTag = True"
| "field_ok (IntTag rules v) = list_all (rule_ok v) rules"

definition validator_Struct :: "vfield list \<Rightarrow> bool" where
  "validator_Struct fs = list_all field_ok fs"

definition CreateProductInput_fields :: "CreateProductInput \<Rightarrow> vfield list" where
  "CreateProductInput_fields input = [NoTag, NoTag, NoTag, NoTag]"

definition UpdateProductInput_fields :: "UpdateProductInput \<Rightarrow> vfield list" where
  "UpdateProductInput_fields input = [NoTag, NoTag, NoTag, NoTag]"

definition PaginationParams_fields :: "PaginationParams \<Rightarrow> vfield list" where
  "PaginationParams_fields pagination =
     [IntTag [Required, Min 1] (sint (Page pagination)),
      IntTag [Required, Min 1, Max 100] (sint (Limit pagination))]"

section \<open>The statements the repository sends\<close>

text \<open>
  The values handed to the driver as \<^verbatim>\<open>args ...interface{}\<close>: a string, a
  \<^verbatim>\<open>float64\<close>, an integer (\<^verbatim>\<open>int\<close> or \<^verbatim>\<open>int64\<close>), a \<^verbatim>\<open>pq.StringArray\<close>
  (\<open>AStrings\<close>, which knows how to encode itself as a text array) or a plain
  \<^verbatim>\<open>[]string\<close> (\<open>ASlice\<close>, which does not). \<open>Create\<close> passes the first kind,
  \<open>Update\<close> the second.
\<close>

datatype sqlarg =
  AString string | AFloat rat | AInt int | AStrings "string list" | ASlice "string list"

text \<open>
  The raw string literal of \<open>Create\<close> starts each of its three lines with a newline
  and two tabs.
\<close>

definition nl_tabs :: string where
  "nl_tabs = [CHR 0x0A, CHR 0x09, CHR 0x09]"

definition Create_query :: string where
  "Create_query =
     nl_tabs @ ''INSERT INTO products (name, description, price, categories)'' @
     nl_tabs @ ''VALUES ($1, $2, $3, $4)'' @
     nl_tabs @ ''RETURNING id, created_at, updated_at''"

definition GetByID_query :: string where
  "GetByID_query = ''SELECT * FROM products WHERE id = $1''"

definition Delete_query :: string where
  "Delete_query = ''DELETE FROM products WHERE id = $1''"

text \<open>
  \<open>List\<close>, lines 65 to 98 of repository.go: the two statement texts and the arguments
  of the page query. Each \<^verbatim>\<open>if\<close> of the source is one step on
  \<open>(whereClause, args, argID)\<close>.
\<close>

definition List_build :: "string ProductFilter \<Rightarrow> PaginationParams \<Rightarrow> string \<times> string \<times> sqlarg list" where
  "List_build flt pagination =
     (let query = ''SELECT * FROM products'';
          countQuery = ''SELECT COUNT(*) FROM products'';
          whereClause = [];
          args = [];
          argID = (1::nat);
          (whereClause, args, argID) =
            (case CategoryID flt of
               None \<Rightarrow> (whereClause, args, argID)
             | Some c \<Rightarrow>
                 if c \<noteq> [] then
                   (whereClause @
                      [''EXISTS (SELECT 1 FROM unnest(categories) category WHERE category ILIKE $'' @
                       show_nat argID @ '')''],
                    args @ [AString (''%'' @ c @ ''%'')], argID + 1)
                 else (whereClause, args, argID));
          (whereClause, args, argID) =
            (case MinPrice flt of
               None \<Rightarrow> (whereClause, args, argID)
             | Some v \<Rightarrow>
                 (whereClause @ [''price >= $'' @ show_nat argID], args @ [AFloat v], argID + 1));
          (whereClause, args, argID) =
            (case MaxPrice flt of
               None \<Rightarrow> (whereClause, args, argID)
             | Some v \<Rightarrow>
                 (whereClause @ [''price <= $'' @ show_nat argID], args @ [AFloat v], argID + 1));
          (whereClause, args, argID) =
            (case Search flt of
               None \<Rightarrow> (whereClause, args, argID)
             | Some q \<Rightarrow>
                 if q \<noteq> [] then
                   (whereClause @
                      [''(to_tsvector('english', name) @@ plainto_tsquery('english', $'' @
                       show_nat argID @
                       '') OR to_tsvector('english', description) @@ plainto_tsquery('english', $'' @
                       show_nat argID @ ''))''],
                    args @ [AString q], argID + 1)
                 else (whereClause, args, argID));
          (query, countQuery) =
            (if length whereClause > 0 then
               (query @ '' WHERE '' @ Join whereClause '' AND '',
                countQuery @ '' WHERE '' @ Join whereClause '' AND '')
             else (query, countQuery));
          query = query @ '' ORDER BY created_at DESC LIMIT $'' @ show_nat argID @
                  '' OFFSET $'' @ show_nat (argID + 1);
          args = args @ [AInt (sint (Limit pagination)),
                         AInt (sint ((Page pagination - 1) * Limit pagination))]
      in (query, countQuery, args))"

text \<open>
  \<open>Update\<close>, lines 117 to 144 of repository.go: the statement text and its arguments.
\<close>

definition Update_build :: "int \<Rightarrow> UpdateProductInput \<Rightarrow> string \<times> sqlarg list" where
  "Update_build pid input =
     (let query = ''UPDATE products SET '';
          args = [];
          argID = (1::nat);
          (query, args, argID) =
            (case UpdateProductInput.Name input of
               None \<Rightarrow> (query, args, argID)
             | Some v \<Rightarrow>
                 (query @ ''name = $'' @ show_nat argID @ '', '', args @ [AString v], argID + 1));
          (query, args, argID) =
            (case UpdateProductInput.Description input of
               None \<Rightarrow> (query, args, argID)
             | Some v \<Rightarrow>
                 (query @ ''description = $'' @ show_nat argID @ '', '', args @ [AString v], argID + 1));
          (query, args, argID) =
            (case UpdateProductInput.Price input of
               None \<Rightarrow> (query, args, argID)
             | Some v \<Rightarrow>
                 (query @ ''price = $'' @ show_nat argID @ '', '', args @ [AFloat v], argID + 1));
          (query, args, argID) =
            (case UpdateProductInput.Categories input of
               None \<Rightarrow> (query, args, argID)
             | Some v \<Rightarrow>
                 (query @ ''categories = $'' @ show_nat argID @ '', '', args @ [ASlice v], argID + 1));
          query = TrimSuffix query '', '';
          query = query @ '', updated_at = NOW() WHERE id = $'' @ show_nat argID;
          args = args @ [AInt pid]
      in (query, args))"

section \<open>The database\<close>

text \<open>
  The PostgreSQL server behind \<^verbatim>\<open>sqlx.DB\<close>, as far as the repository can observe it:
  the \<^verbatim>\<open>products\<close> table of the migration (its rows in storage order), the sequence
  behind the \<^verbatim>\<open>SERIAL\<close> id, the value of \<^verbatim>\<open>NOW()\<close>, and the server's English
  full-text matcher \<open>ts_match doc q\<close> for
  \<^verbatim>\<open>to_tsvector('english', doc) @@ plainto_tsquery('english', q)\<close>, which is left open.
  \<open>converts_slices\<close> tells whether the driver in use encodes a plain \<^verbatim>\<open>[]string\<close>
  argument as a text array: \<^verbatim>\<open>database/sql\<close> refuses such an argument unless the
  driver converts it, and the repository does not fix the driver's version.
\<close>

record db =
  products :: "Product list"
  next_id :: int
  now :: nat
  ts_match :: "string \<Rightarrow> string \<Rightarrow> bool"
  converts_slices :: bool

subsection \<open>Reading a statement\<close>

text \<open>
  The server parses the text it is sent. The grammar below covers the statements this
  repository can build: the three fixed ones, the page and the count query with an
  optional \<^verbatim>\<open>WHERE\<close> of conditions joined by \<^verbatim>\<open>AND\<close>, and the update with a
  non-empty, comma-separated \<^verbatim>\<open>SET\<close> list. Any other text is a syntax error.
\<close>

datatype cond = CategoryILike nat | PriceGe nat | PriceLe nat | TextSearch nat nat

datatype column = ColName | ColDescription | ColPrice | ColCategories

datatype assign = SetParam column nat | SetUpdatedAtNow

datatype stmt =
    InsertReturning
  | SelectByID
  | DeleteByID
  | SelectPage "cond list" nat nat
  | SelectCount "cond list"
  | UpdateByID "assign list" nat

fun strip_prefix :: "string \<Rightarrow> string \<Rightarrow> string option" where
  "strip_prefix [] s = Some s"
| "strip_prefix (p # ps) [] = None"
| "strip_prefix (p # ps) (c # cs) = (if p = c then strip_prefix ps cs else None)"

fun digits_value :: "nat \<Rightarrow> string \<Rightarrow> nat \<times> string" where
  "digits_value n [] = (n, [])"
| "digits_value n (c # cs) =
     (case digit_of c of None \<Rightarrow> (n, c # cs) | Some d \<Rightarrow> digits_value (n * 10 + d) cs)"

definition parse_param :: "string \<Rightarrow> (nat \<times> string) option" where
  "parse_param s =
     (case s of
        [] \<Rightarrow> None
      | c # r \<Rightarrow>
          if c \<noteq> CHR ''$'' then None
          else (case r of
                  [] \<Rightarrow> None
                | d # _ \<Rightarrow> if digit_of d = None then None else Some (digits_value 0 r)))"

definition parse_cond :: "string \<Rightarrow> (cond \<times> string) option" where
  "parse_cond s =
     (case strip_prefix ''EXISTS (SELECT 1 FROM unnest(categories) category WHERE category ILIKE '' s of
        Some r \<Rightarrow>
          Option.bind (parse_param r) (\<lambda>(n, r).
          Option.bind (strip_prefix '')'' r) (\<lambda>r. Some (CategoryILike n, r)))
      | None \<Rightarrow>
     (case strip_prefix ''price >= '' s of
        Some r \<Rightarrow> Option.bind (parse_param r) (\<lambda>(n, r). Some (PriceGe n, r))
      | None \<Rightarrow>
     (case strip_prefix ''price <= '' s of
        Some r \<Rightarrow> Option.bind (parse_param r) (\<lambda>(n, r). Some (PriceLe n, r))
      | None \<Rightarrow>
     (case strip_prefix ''(to_tsvector('english', name) @@ plainto_tsquery('english', '' s of
        Some r \<Rightarrow>
          Option.bind (parse_param r) (\<lambda>(n, r).
          Option.bind (strip_prefix '') OR to_tsvector('english', description) @@ plainto_tsquery('english', '' r) (\<lambda>r.
          Option.bind (parse_param r) (\<lambda>(m, r).
          Option.bind (strip_prefix ''))'' r) (\<lambda>r. Some (TextSearch n m, r)))))
      | None \<Rightarrow> None))))"

fun parse_conds :: "nat \<Rightarrow> string \<Rightarrow> (cond list \<times> string) option" where
  "parse_conds 0 s = None"
| "parse_conds (Suc fuel) s =
     (case parse_cond s of
        None \<Rightarrow> None
      | Some (c, r) \<Rightarrow>
          (case strip_prefix '' AND '' r of
             None \<Rightarrow> Some ([c], r)
           | Some r' \<Rightarrow> map_option (\<lambda>(cs, r''). (c # cs, r'')) (parse_conds fuel r')))"

definition parse_where :: "string \<Rightarrow> (cond list \<times> string) option" where
  "parse_where s =
     (case strip_prefix '' WHERE '' s of
        None \<Rightarrow> Some ([], s)
      | Some r \<Rightarrow> parse_conds (length r) r)"

definition parse_assign :: "string \<Rightarrow> (assign \<times> string) option" where
  "parse_assign s =
     (case strip_prefix ''updated_at = NOW()'' s of
        Some r \<Rightarrow> Some (SetUpdatedAtNow, r)
      | None \<Rightarrow>
     (case strip_prefix ''name = '' s of
        Some r \<Rightarrow> Option.bind (parse_param r) (\<lambda>(n, r). Some (SetParam ColName n, r))
      | None \<Rightarrow>
     (case strip_prefix ''description = '' s of
        Some r \<Rightarrow> Option.bind (parse_param r) (\<lambda>(n, r). Some (SetParam ColDescription n, r))
      | None \<Rightarrow>
     (case strip_prefix ''price = '' s of
        Some r \<Rightarrow> Option.bind (parse_param r) (\<lambda>(n, r). Some (SetParam ColPrice n, r))
      | None \<Rightarrow>
     (case strip_prefix ''categories = '' s of
        Some r \<Rightarrow> Option.bind (parse_param r) (\<lambda>(n, r). Some (SetParam ColCategories n, r))
      | None \<Rightarrow> None)))))"

fun parse_assigns :: "nat \<Rightarrow> string \<Rightarrow> (assign list \<times> string) option" where
  "parse_assigns 0 s = None"
| "parse_assigns (Suc fuel) s =
     (case parse_assign s of
        None \<Rightarrow> None
      | Some (a, r) \<Rightarrow>
          (case strip_prefix '', '' r of
             None \<Rightarrow> Some ([a], r)
           | Some r' \<Rightarrow> map_option (\<lambda>(as, r''). (a # as, r'')) (parse_assigns fuel r')))"

definition parse_page :: "string \<Rightarrow> stmt option" where
  "parse_page s =
     Option.bind (parse_where s) (\<lambda>(cs, r).
     Option.bind (strip_prefix '' ORDER BY created_at DESC LIMIT '' r) (\<lambda>r.
     Option.bind (parse_param r) (\<lambda>(l, r).
     Option.bind (strip_prefix '' OFFSET '' r) (\<lambda>r.
     Option.bind (parse_param r) (\<lambda>(off, r).
     if r = [] then Some (SelectPage cs l off) else None)))))"

definition parse_count :: "string \<Rightarrow> stmt option" where
  "parse_count s =
     Option.bind (parse_where s) (\<lambda>(cs, r). if r = [] then Some (SelectCount cs) else None)"

definition parse_update :: "string \<Rightarrow> stmt option" where
  "parse_update s =
     Option.bind (parse_assigns (length s) s) (\<lambda>(as, r).
     Option.bind (strip_prefix '' WHERE id = '' r) (\<lambda>r.
     Option.bind (parse_param r) (\<lambda>(n, r).
     if r = [] then Some (UpdateByID as n) else None)))"

definition prepare :: "string \<Rightarrow> stmt option" where
  "prepare q =
     (if q = Create_query then Some InsertReturning
      else if q = GetByID_query then Some SelectByID
      else if q = Delete_query then Some DeleteByID
      else (case strip_prefix ''SELECT * FROM products'' q of
              Some r \<Rightarrow> parse_page r
            | None \<Rightarrow>
           (case strip_prefix ''SELECT COUNT(*) FROM products'' q of
              Some r \<Rightarrow> parse_count r
            | None \<Rightarrow>
           (case strip_prefix ''UPDATE products SET '' q of
              Some r \<Rightarrow> parse_update r
            | None \<Rightarrow> None))))"

subsection \<open>Binding the arguments\<close>

text \<open>
  The driver refuses a call whose number of arguments differs from the number of
  parameters of the statement, and the server refuses a statement that skips a
  parameter number: the parameters used must be exactly \<open>$1 .. $n\<close> for \<open>n\<close> arguments.
\<close>

fun cond_params :: "cond \<Rightarrow> nat list" where
  "cond_params (CategoryILike k) = [k]"
| "cond_params (PriceGe k) = [k]"
| "cond_params (PriceLe k) = [k]"
| "cond_params (TextSearch k m) = [k, m]"

fun assign_params :: "assign \<Rightarrow> nat list" where
  "assign_params (SetParam c k) = [k]"
| "assign_params SetUpdatedAtNow = []"

fun stmt_params :: "stmt \<Rightarrow> nat list" where
  "stmt_params InsertReturning = [1, 2, 3, 4]"
| "stmt_params SelectByID = [1]"
| "stmt_params DeleteByID = [1]"
| "stmt_params (SelectPage cs l off) = concat (map cond_params cs) @ [l, off]"
| "stmt_params (SelectCount cs) = concat (map cond_params cs)"
| "stmt_params (UpdateByID as k) = concat (map assign_params as) @ [k]"

definition bind_ok :: "stmt \<Rightarrow> sqlarg list \<Rightarrow> bool" where
  "bind_ok st args =
     (list_all (\<lambda>k. 1 \<le> k \<and> k \<le> length args) (stmt_params st) \<and>
      list_all (\<lambda>k. k \<in> set (stmt_params st)) [1..<Suc (length args)])"

definition arg_at :: "sqlarg list \<Rightarrow> nat \<Rightarrow> sqlarg option" where
  "arg_at args k = (if 1 \<le> k \<and> k \<le> length args then Some (args ! (k - 1)) else None)"


fun as_string :: "sqlarg option \<Rightarrow> string option" where
  "as_string (Some (AString s)) = Some s"
| "as_string _ = None"

fun as_float :: "sqlarg option \<Rightarrow> rat option" where
  "as_float (Some (AFloat v)) = Some v"
| "as_float _ = None"

fun as_int :: "sqlarg option \<Rightarrow> int option" where
  "as_int (Some (AInt i)) = Some i"
| "as_int _ = None"

fun as_strings :: "sqlarg option \<Rightarrow> string list option" where
  "as_strings (Some (AStrings xs)) = Some xs"
| "as_strings _ = None"

subsection \<open>Conditions\<close>

text \<open>
  \<^verbatim>\<open>LIKE\<close>: in a pattern \<^verbatim>\<open>%\<close> stands for any run of characters, \<^verbatim>\<open>_\<close> for any one
  character, a backslash takes the next character literally, and any other character
  stands for itself. \<^verbatim>\<open>ILIKE\<close> compares after folding both sides to lower case
  (here: the ASCII letters). \<open>like pat s\<close> has the pattern first.
\<close>

fun like :: "string \<Rightarrow> string \<Rightarrow> bool" where
  "like [] s = (s = [])"
| "like (p # ps) [] = (p = CHR ''%'' \<and> like ps [])"
| "like (p # ps) (c # cs) =
     (if p = CHR ''%'' then like ps (c # cs) \<or> like (p # ps) cs
      else if p = CHR ''_'' then like ps cs
      else if p = CHR 0x5C then (case ps of [] \<Rightarrow> False | q # qs \<Rightarrow> c = q \<and> like qs cs)
      else c = p \<and> like ps cs)"

definition lower :: "char \<Rightarrow> char" where
  "lower c =
     (case map_of (zip ''ABCDEFGHIJKLMNOPQRSTUVWXYZ'' ''abcdefghijklmnopqrstuvwxyz'') c of
        None \<Rightarrow> c
      | Some l \<Rightarrow> l)"

definition ilike :: "string \<Rightarrow> string \<Rightarrow> bool" where
  "ilike s pat = like (map lower pat) (map lower s)"

fun cond_typed :: "sqlarg list \<Rightarrow> cond \<Rightarrow> bool" where
  "cond_typed args (CategoryILike k) = (as_string (arg_at args k) \<noteq> None)"
| "cond_typed args (PriceGe k) = (as_float (arg_at args k) \<noteq> None)"
| "cond_typed args (PriceLe k) = (as_float (arg_at args k) \<noteq> None)"
| "cond_typed args (TextSearch k m) =
     (as_string (arg_at args k) \<noteq> None \<and> as_string (arg_at args m) \<noteq> None)"

fun cond_holds :: "(string \<Rightarrow> string \<Rightarrow> bool) \<Rightarrow> sqlarg list \<Rightarrow> Product \<Rightarrow> cond \<Rightarrow> bool" where
  "cond_holds ts args p (CategoryILike k) =
     (case as_string (arg_at args k) of
        None \<Rightarrow> False
      | Some pat \<Rightarrow> list_ex (\<lambda>category. ilike category pat) (Categories p))"
| "cond_holds ts args p (PriceGe k) =
     (case as_float (arg_at args k) of None \<Rightarrow> False | Some v \<Rightarrow> Price p \<ge> v)"
| "cond_holds ts args p (PriceLe k) =
     (case as_float (arg_at args k) of None \<Rightarrow> False | Some v \<Rightarrow> Price p \<le> v)"
| "cond_holds ts args p (TextSearch k m) =
     ((case as_string (arg_at args k) of None \<Rightarrow> False | Some q \<Rightarrow> ts (Name p) q) \<or>
      (case as_string (arg_at args m) of None \<Rightarrow> False | Some q \<Rightarrow> ts (Description p) q))"

definition where_rows :: "db \<Rightarrow> sqlarg list \<Rightarrow> cond list \<Rightarrow> Product list" where
  "where_rows d args cs = filter (\<lambda>p. list_all (cond_holds (ts_match d) args p) cs) (products d)"

text \<open>
  \<^verbatim>\<open>ORDER BY created_at DESC\<close>. The server promises no order among rows with equal
  keys; the model takes one of the orders it may return.
\<close>

definition order_created_desc :: "Product list \<Rightarrow> Product list" where
  "order_created_desc ps = rev (sort_key CreatedAt ps)"

subsection \<open>Columns\<close>

text \<open>
  The migration declares \<^verbatim>\<open>name VARCHAR(255)\<close> and \<^verbatim>\<open>price DECIMAL(10, 2)\<close>: a name
  of more than 255 characters is refused, a price is rounded to two decimals (half
  away from zero) and refused when the result needs more than eight integer digits.
\<close>

definition round_2 :: "rat \<Rightarrow> rat" where
  "round_2 x =
     (if 0 \<le> x then of_int \<lfloor>x * 100 + 1 / 2\<rfloor> / 100
      else - (of_int \<lfloor>- x * 100 + 1 / 2\<rfloor> / 100))"

definition numeric_10_2 :: "rat \<Rightarrow> rat option" where
  "numeric_10_2 x = (if \<bar>round_2 x\<bar> < 10 ^ 8 then Some (round_2 x) else None)"

definition varchar_255 :: "string \<Rightarrow> string option" where
  "varchar_255 s = (if length s \<le> 255 then Some s else None)"

subsection \<open>Running a statement\<close>

datatype rs = Returning int nat nat | Rows "Product list" | Count nat | Affected nat

definition run_insert :: "db \<Rightarrow> sqlarg list \<Rightarrow> goerr + (rs \<times> db)" where
  "run_insert d args =
     (case (as_string (arg_at args 1), as_string (arg_at args 2),
            as_float (arg_at args 3), as_strings (arg_at args 4)) of
        (Some n, Some ds, Some pr, Some cs) \<Rightarrow>
          (case (varchar_255 n, numeric_10_2 pr) of
             (Some n', Some pr') \<Rightarrow>
               Inr (Returning (next_id d) (now d) (now d),
                    d\<lparr>products := products d @
                         [\<lparr>ID = next_id d, Name = n', Description = ds, Price = pr',
                           Categories = cs, CreatedAt = now d, UpdatedAt = now d\<rparr>],
                      next_id := next_id d + 1\<rparr>)
           | _ \<Rightarrow> Inl (DriverError ''pq: value out of range for its column''))
      | _ \<Rightarrow> Inl (DriverError ''pq: invalid input for a parameter''))"

definition run_page :: "db \<Rightarrow> sqlarg list \<Rightarrow> cond list \<Rightarrow> nat \<Rightarrow> nat \<Rightarrow> goerr + (rs \<times> db)" where
  "run_page d args cs l off =
     (if \<not> list_all (cond_typed args) cs then Inl (DriverError ''pq: invalid input for a parameter'')
      else
        (case (as_int (arg_at args l), as_int (arg_at args off)) of
           (Some n_limit, Some n_offset) \<Rightarrow>
             if n_limit < 0 then Inl (DriverError ''pq: LIMIT must not be negative'')
             else if n_offset < 0 then Inl (DriverError ''pq: OFFSET must not be negative'')
             else Inr (Rows (take (nat n_limit) (drop (nat n_offset)
                         (order_created_desc (where_rows d args cs)))), d)
         | _ \<Rightarrow> Inl (DriverError ''pq: invalid input for a parameter'')))"

definition run_count :: "db \<Rightarrow> sqlarg list \<Rightarrow> cond list \<Rightarrow> goerr + (rs \<times> db)" where
  "run_count d args cs =
     (if \<not> list_all (cond_typed args) cs then Inl (DriverError ''pq: invalid input for a parameter'')
      else Inr (Count (length (where_rows d args cs)), d))"

fun assign_typed :: "sqlarg list \<Rightarrow> assign \<Rightarrow> bool" where
  "assign_typed args SetUpdatedAtNow = True"
| "assign_typed args (SetParam ColName k) = (as_string (arg_at args k) \<noteq> None)"
| "assign_typed args (SetParam ColDescription k) = (as_string (arg_at args k) \<noteq> None)"
| "assign_typed args (SetParam ColPrice k) = (as_float (arg_at args k) \<noteq> None)"
| "assign_typed args (SetParam ColCategories k) = (as_strings (arg_at args k) \<noteq> None)"

fun apply_assign :: "nat \<Rightarrow> sqlarg list \<Rightarrow> assign \<Rightarrow> Product \<Rightarrow> Product option" where
  "apply_assign t args SetUpdatedAtNow p = Some (p\<lparr>UpdatedAt := t\<rparr>)"
| "apply_assign t args (SetParam ColName k) p =
     map_option (\<lambda>v. p\<lparr>Name := v\<rparr>) (Option.bind (as_string (arg_at args k)) varchar_255)"
| "apply_assign t args (SetParam ColDescription k) p =
     map_option (\<lambda>v. p\<lparr>Description := v\<rparr>) (as_string (arg_at args k))"
| "apply_assign t args (SetParam ColPrice k) p =
     map_option (\<lambda>v. p\<lparr>Price := v\<rparr>) (Option.bind (as_float (arg_at args k)) numeric_10_2)"
| "apply_assign t args (SetParam ColCategories k) p =
     map_option (\<lambda>v. p\<lparr>Categories := v\<rparr>) (as_strings (arg_at args k))"

fun apply_assigns :: "nat \<Rightarrow> sqlarg list \<Rightarrow> assign list \<Rightarrow> Product \<Rightarrow> Product option" where
  "apply_assigns t args [] p = Some p"
| "apply_assigns t args (a # as) p =
     (case apply_assign t args a p of None \<Rightarrow> None | Some p' \<Rightarrow> apply_assigns t args as p')"

fun update_rows :: "nat \<Rightarrow> sqlarg list \<Rightarrow> assign list \<Rightarrow> int \<Rightarrow> Product list \<Rightarrow> Product list option" where
  "update_rows t args as i [] = Some []"
| "update_rows t args as i (p # ps) =
     (if ID p = i then
        (case apply_assigns t args as p of
           None \<Rightarrow> None
         | Some p' \<Rightarrow> map_option ((#) p') (update_rows t args as i ps))
      else map_option ((#) p) (update_rows t args as i ps))"

fun assign_target :: "assign \<Rightarrow> column option" where
  "assign_target (SetParam c k) = Some c"
| "assign_target SetUpdatedAtNow = None"

definition run_update :: "db \<Rightarrow> sqlarg list \<Rightarrow> assign list \<Rightarrow> nat \<Rightarrow> goerr + (rs \<times> db)" where
  "run_update d args as k =
     (if \<not> distinct (map assign_target as) then
        Inl (DriverError ''pq: multiple assignments to same column'')
      else if \<not> list_all (assign_typed args) as then
        Inl (DriverError ''pq: invalid input for a parameter'')
      else
        (case as_int (arg_at args k) of
           None \<Rightarrow> Inl (DriverError ''pq: invalid input for a parameter'')
         | Some i \<Rightarrow>
             (case update_rows (now d) args as i (products d) of
                None \<Rightarrow> Inl (DriverError ''pq: value out of range for its column'')
              | Some rows \<Rightarrow>
                  Inr (Affected (length (filter (\<lambda>p. ID p = i) (products d))),
                       d\<lparr>products := rows\<rparr>))))"

definition run_select_id :: "db \<Rightarrow> sqlarg list \<Rightarrow> goerr + (rs \<times> db)" where
  "run_select_id d args =
     (case as_int (arg_at args 1) of
        None \<Rightarrow> Inl (DriverError ''pq: invalid input for a parameter'')
      | Some i \<Rightarrow> Inr (Rows (filter (\<lambda>p. ID p = i) (products d)), d))"

definition run_delete :: "db \<Rightarrow> sqlarg list \<Rightarrow> goerr + (rs \<times> db)" where
  "run_delete d args =
     (case as_int (arg_at args 1) of
        None \<Rightarrow> Inl (DriverError ''pq: invalid input for a parameter'')
      | Some i \<Rightarrow>
          Inr (Affected (length (filter (\<lambda>p. ID p = i) (products d))),
               d\<lparr>products := filter (\<lambda>p. ID p \<noteq> i) (products d)\<rparr>))"

fun run :: "db \<Rightarrow> stmt \<Rightarrow> sqlarg list \<Rightarrow> goerr + (rs \<times> db)" where
  "run d InsertReturning args = run_insert d args"
| "run d SelectByID args = run_select_id d args"
| "run d DeleteByID args = run_delete d args"
| "run d (SelectPage cs l off) args = run_page d args cs l off"
| "run d (SelectCount cs) args = run_count d args cs"
| "run d (UpdateByID as k) args = run_update d args as k"

text \<open>
  Before a statement is sent, \<^verbatim>\<open>database/sql\<close> turns each argument into a driver
  value and fails if one cannot be converted.
\<close>

fun driver_value :: "bool \<Rightarrow> sqlarg \<Rightarrow> sqlarg option" where
  "driver_value conv (ASlice xs) = (if conv then Some (AStrings xs) else None)"
| "driver_value conv a = Some a"

fun driver_args :: "bool \<Rightarrow> sqlarg list \<Rightarrow> sqlarg list option" where
  "driver_args conv [] = Some []"
| "driver_args conv (a # as) =
     (case driver_value conv a of
        None \<Rightarrow> None
      | Some v \<Rightarrow> map_option ((#) v) (driver_args conv as))"

definition db_exec :: "db \<Rightarrow> string \<Rightarrow> sqlarg list \<Rightarrow> goerr + (rs \<times> db)" where
  "db_exec d q args =
     (case driver_args (converts_slices d) args of
        None \<Rightarrow> Inl (DriverError ''sql: converting argument: unsupported type []string'')
      | Some vs \<Rightarrow>
          (case prepare q of
             None \<Rightarrow> Inl (DriverError ''pq: syntax error'')
           | Some st \<Rightarrow>
               if bind_ok st vs then run d st vs
               else Inl (DriverError ''pq: wrong number of parameters'')))"


section \<open>The sqlx calls\<close>

text \<open>
  \<^verbatim>\<open>QueryRowxContext(...).StructScan(dest)\<close> copies the returned columns into \<open>dest\<close>;
  \<^verbatim>\<open>GetContext\<close> scans the first row and fails with \<^verbatim>\<open>sql.ErrNoRows\<close> when there is
  none; \<^verbatim>\<open>SelectContext\<close> scans every row; \<^verbatim>\<open>ExecContext\<close> gives the number of rows
  affected.
\<close>

definition QueryRowx_StructScan :: "db \<Rightarrow> string \<Rightarrow> sqlarg list \<Rightarrow> Product \<Rightarrow> (goerr + Product) \<times> db" where
  "QueryRowx_StructScan d q args dest =
     (case db_exec d q args of
        Inl err \<Rightarrow> (Inl err, d)
      | Inr (r, d') \<Rightarrow>
          (case r of
             Returning i c u \<Rightarrow> (Inr (dest\<lparr>ID := i, CreatedAt := c, UpdatedAt := u\<rparr>), d')
           | _ \<Rightarrow> (Inl (DriverError ''sql: scan error''), d')))"

definition GetContext_Product :: "db \<Rightarrow> string \<Rightarrow> sqlarg list \<Rightarrow> (goerr + Product) \<times> db" where
  "GetContext_Product d q args =
     (case db_exec d q args of
        Inl err \<Rightarrow> (Inl err, d)
      | Inr (r, d') \<Rightarrow>
          (case r of
             Rows ps \<Rightarrow> (case ps of [] \<Rightarrow> (Inl SqlErrNoRows, d') | p # _ \<Rightarrow> (Inr p, d'))
           | _ \<Rightarrow> (Inl (DriverError ''sql: scan error''), d')))"

definition GetContext_int :: "db \<Rightarrow> string \<Rightarrow> sqlarg list \<Rightarrow> (goerr + nat) \<times> db" where
  "GetContext_int d q args =
     (case db_exec d q args of
        Inl err \<Rightarrow> (Inl err, d)
      | Inr (r, d') \<Rightarrow>
          (case r of
             Count n \<Rightarrow> (Inr n, d')
           | _ \<Rightarrow> (Inl (DriverError ''sql: scan error''), d')))"

definition SelectContext :: "db \<Rightarrow> string \<Rightarrow> sqlarg list \<Rightarrow> (goerr + Product list) \<times> db" where
  "SelectContext d q args =
     (case db_exec d q args of
        Inl err \<Rightarrow> (Inl err, d)
      | Inr (r, d') \<Rightarrow>
          (case r of
             Rows ps \<Rightarrow> (Inr ps, d')
           | _ \<Rightarrow> (Inl (DriverError ''sql: scan error''), d')))"

definition ExecContext :: "db \<Rightarrow> string \<Rightarrow> sqlarg list \<Rightarrow> (goerr + nat) \<times> db" where
  "ExecContext d q args =
     (case db_exec d q args of
        Inl err \<Rightarrow> (Inl err, d)
      | Inr (r, d') \<Rightarrow>
          (case r of
             Affected n \<Rightarrow> (Inr n, d')
           | _ \<Rightarrow> (Inr 0, d')))"

section \<open>The repository\<close>

text \<open>
  repository.go. A function that returns only an \<^verbatim>\<open>error\<close> returns a
  \<open>goerr option\<close> (\<open>None\<close> is \<^verbatim>\<open>nil\<close>); one that returns a value and an error returns
  a sum. Every function takes the database and returns it.
\<close>

definition repository_Create :: "Product \<Rightarrow> db \<Rightarrow> (goerr + Product) \<times> db" where
  "repository_Create product d =
     (case QueryRowx_StructScan d Create_query
             [AString (Name product), AString (Description product),
              AFloat (Price product), AStrings (Categories product)] product of
        (Inl err, d') \<Rightarrow> (Inl (Wrapf ''error creating product'' err), d')
      | (Inr product', d') \<Rightarrow> (Inr product', d'))"

definition repository_GetByID :: "int \<Rightarrow> db \<Rightarrow> (goerr + Product) \<times> db" where
  "repository_GetByID pid d =
     (case GetContext_Product d GetByID_query [AInt pid] of
        (Inl err, d') \<Rightarrow>
          if err = SqlErrNoRows then (Inl (Wrapf ''product not found'' err), d')
          else (Inl (Wrapf ''error getting product'' err), d')
      | (Inr product, d') \<Rightarrow> (Inr product, d'))"

definition repository_List :: "string ProductFilter \<Rightarrow> PaginationParams \<Rightarrow> db \<Rightarrow> (goerr + Product list \<times> nat) \<times> db" where
  "repository_List flt pagination d =
     (let (query, countQuery, args) = List_build flt pagination in
      case SelectContext d query args of
        (Inl err, d') \<Rightarrow> (Inl (Wrapf ''error listing products'' err), d')
      | (Inr prods, d') \<Rightarrow>
          if length args < 2 then (Inl (GoPanic ''slice bounds out of range''), d')
          else
            (case GetContext_int d' countQuery (take (length args - 2) args) of
               (Inl err, d'') \<Rightarrow> (Inl (Wrapf ''error counting products'' err), d'')
             | (Inr totalCount, d'') \<Rightarrow> (Inr (prods, totalCount), d'')))"

definition repository_Update :: "int \<Rightarrow> UpdateProductInput \<Rightarrow> db \<Rightarrow> goerr option \<times> db" where
  "repository_Update pid input d =
     (let (query, args) = Update_build pid input in
      case ExecContext d query args of
        (Inl err, d') \<Rightarrow> (Some (Wrapf ''error updating product'' err), d')
      | (Inr rowsAffected, d') \<Rightarrow>
          if rowsAffected = 0 then (Some (Errorf ''product not found''), d')
          else (None, d'))"

definition repository_Delete :: "int \<Rightarrow> db \<Rightarrow> goerr option \<times> db" where
  "repository_Delete pid d =
     (case ExecContext d Delete_query [AInt pid] of
        (Inl err, d') \<Rightarrow> (Some (Wrapf ''error deleting product'' err), d')
      | (Inr rowsAffected, d') \<Rightarrow>
          if rowsAffected = 0 then (Some (Errorf ''product not found''), d')
          else (None, d'))"

section \<open>The service\<close>

text \<open>
  The service holds a \<open>Repository\<close> interface value; each function takes the method it
  calls as its first argument, over any state \<open>'s\<close>.
\<close>

definition service_CreateProduct ::
  "(Product \<Rightarrow> 's \<Rightarrow> (goerr + Product) \<times> 's) \<Rightarrow> CreateProductInput \<Rightarrow> 's \<Rightarrow> (goerr + Product) \<times> 's" where
  "service_CreateProduct repo_Create input s =
     (if \<not> validator_Struct (CreateProductInput_fields input) then (Inl ErrInvalidInput, s)
      else
        let product = \<lparr>ID = 0, Name = CreateProductInput.Name input,
                       Description = CreateProductInput.Description input,
                       Price = CreateProductInput.Price input,
                       Categories = CreateProductInput.Categories input,
                       CreatedAt = 0, UpdatedAt = 0\<rparr>
        in (case repo_Create product s of
              (Inl err, s') \<Rightarrow> (Inl err, s')
            | (Inr product', s') \<Rightarrow> (Inr product', s')))"

definition service_GetProductByID ::
  "(int \<Rightarrow> 's \<Rightarrow> (goerr + Product) \<times> 's) \<Rightarrow> int \<Rightarrow> 's \<Rightarrow> (goerr + Product) \<times> 's" where
  "service_GetProductByID repo_GetByID pid s =
     (case repo_GetByID pid s of
        (Inl err, s') \<Rightarrow>
          if errors_Is err SqlErrNoRows then (Inl ErrProductNotFound, s') else (Inl err, s')
      | (Inr product, s') \<Rightarrow> (Inr product, s'))"

definition service_ListProducts ::
  "('c ProductFilter \<Rightarrow> PaginationParams \<Rightarrow> 's \<Rightarrow> (goerr + Product list \<times> nat) \<times> 's) \<Rightarrow>
   'c ProductFilter \<Rightarrow> PaginationParams \<Rightarrow> 's \<Rightarrow> (goerr + Product list \<times> nat) \<times> 's" where
  "service_ListProducts repo_List flt pagination s =
     (if \<not> validator_Struct (PaginationParams_fields pagination) then (Inl ErrInvalidInput, s)
      else repo_List flt pagination s)"

definition service_UpdateProduct ::
  "(int \<Rightarrow> UpdateProductInput \<Rightarrow> 's \<Rightarrow> goerr option \<times> 's) \<Rightarrow>
   int \<Rightarrow> UpdateProductInput \<Rightarrow> 's \<Rightarrow> goerr option \<times> 's" where
  "service_UpdateProduct repo_Update pid input s =
     (if \<not> validator_Struct (UpdateProductInput_fields input) then (Some ErrInvalidInput, s)
      else
        (case repo_Update pid input s of
           (Some err, s') \<Rightarrow>
             if errors_Is err SqlErrNoRows then (Some ErrProductNotFound, s') else (Some err, s')
         | (None, s') \<Rightarrow> (None, s')))"

definition service_DeleteProduct ::
  "(int \<Rightarrow> 's \<Rightarrow> goerr option \<times> 's) \<Rightarrow> int \<Rightarrow> 's \<Rightarrow> goerr option \<times> 's" where
  "service_DeleteProduct repo_Delete pid s =
     (case repo_Delete pid s of
        (Some err, s') \<Rightarrow>
          if errors_Is err SqlErrNoRows then (Some ErrProductNotFound, s') else (Some err, s')
      | (None, s') \<Rightarrow> (None, s'))"

section \<open>The handler\<close>

text \<open>
  handler.go. A response is its status code and what was written as its body. The
  JSON decoder and the form parser of \<^verbatim>\<open>net/http\<close> are outside the package: a request
  carries their outcome, \<open>None\<close> when decoding or \<^verbatim>\<open>ParseForm\<close> failed. Each handler
  takes the \<open>Service\<close> method it calls as its first argument;
  \<open>ListProducts\<close> also takes \<^verbatim>\<open>strconv.ParseFloat\<close>, whose result is \<open>None\<close> on an error.
\<close>

datatype payload =
    NoBody
  | Text string
  | ProductJSON Product
  | ListJSON "Product list" nat "64 word" "64 word"

record response =
  status :: nat
  body :: payload

fun err_Error :: "goerr \<Rightarrow> string" where
  "err_Error SqlErrNoRows = ''sql: no rows in result set''"
| "err_Error ErrProductNotFound = ''product not found''"
| "err_Error ErrInvalidInput = ''invalid input''"
| "err_Error (DriverError msg) = msg"
| "err_Error (Errorf msg) = msg"
| "err_Error (Wrapf msg err) = msg @ '': '' @ err_Error err"
| "err_Error (GoPanic msg) = msg"

definition http_Error :: "string \<Rightarrow> nat \<Rightarrow> response" where
  "http_Error msg code = \<lparr>status = code, body = Text msg\<rparr>"

definition Handler_CreateProduct ::
  "(CreateProductInput \<Rightarrow> 's \<Rightarrow> (goerr + Product) \<times> 's) \<Rightarrow> CreateProductInput option \<Rightarrow> 's \<Rightarrow> response \<times> 's" where
  "Handler_CreateProduct svc_CreateProduct decoded s =
     (case decoded of
        None \<Rightarrow> (http_Error ''Invalid input'' 400, s)
      | Some input \<Rightarrow>
          (case svc_CreateProduct input s of
             (Inl err, s') \<Rightarrow>
               if err = ErrInvalidInput then (http_Error (err_Error err) 400, s')
               else (http_Error ''Internal server error'' 500, s')
           | (Inr product, s') \<Rightarrow> (\<lparr>status = 201, body = ProductJSON product\<rparr>, s')))"

definition Handler_GetProduct ::
  "(int \<Rightarrow> 's \<Rightarrow> (goerr + Product) \<times> 's) \<Rightarrow> string \<Rightarrow> 's \<Rightarrow> response \<times> 's" where
  "Handler_GetProduct svc_GetProductByID id_param s =
     (case ParseInt id_param of
        (pid, Some err) \<Rightarrow> (http_Error ''Invalid product ID'' 400, s)
      | (pid, None) \<Rightarrow>
          (case svc_GetProductByID pid s of
             (Inl err, s') \<Rightarrow>
               if err = ErrProductNotFound then (http_Error (err_Error err) 404, s')
               else (http_Error ''Internal server error'' 500, s')
           | (Inr product, s') \<Rightarrow> (\<lparr>status = 200, body = ProductJSON product\<rparr>, s')))"

definition Form_Get :: "(string \<times> string) list \<Rightarrow> string \<Rightarrow> string" where
  "Form_Get form key = (case map_of form key of None \<Rightarrow> [] | Some v \<Rightarrow> v)"

definition ListProducts_params ::
  "(string \<Rightarrow> rat option) \<Rightarrow> (string \<times> string) list \<Rightarrow> int ProductFilter \<times> PaginationParams" where
  "ListProducts_params ParseFloat form =
     (let flt = \<lparr>CategoryID = None, MinPrice = None, MaxPrice = None, Search = None\<rparr>;
          categoryID = Form_Get form ''category_id'';
          flt = (if categoryID \<noteq> [] then
                   (case ParseInt categoryID of
                      (v, None) \<Rightarrow> flt\<lparr>CategoryID := Some v\<rparr>
                    | (v, Some err) \<Rightarrow> flt)
                 else flt);
          minPrice = Form_Get form ''min_price'';
          flt = (if minPrice \<noteq> [] then
                   (case ParseFloat minPrice of
                      Some price \<Rightarrow> flt\<lparr>MinPrice := Some price\<rparr>
                    | None \<Rightarrow> flt)
                 else flt);
          maxPrice = Form_Get form ''max_price'';
          flt = (if maxPrice \<noteq> [] then
                   (case ParseFloat maxPrice of
                      Some price \<Rightarrow> flt\<lparr>MaxPrice := Some price\<rparr>
                    | None \<Rightarrow> flt)
                 else flt);
          search = Form_Get form ''search'';
          flt = (if search \<noteq> [] then flt\<lparr>Search := Some search\<rparr> else flt);
          page = (word_of_int (fst (Atoi (Form_Get form ''page''))) :: 64 word);
          page = (if sint page < 1 then 1 else page);
          limit = (word_of_int (fst (Atoi (Form_Get form ''limit''))) :: 64 word);
          limit = (if sint limit < 1 \<or> sint limit > 100 then 10 else limit)
      in (flt, \<lparr>Page = page, Limit = limit\<rparr>))"

definition Handler_ListProducts ::
  "(string \<Rightarrow> rat option) \<Rightarrow>
   (int ProductFilter \<Rightarrow> PaginationParams \<Rightarrow> 's \<Rightarrow> (goerr + Product list \<times> nat) \<times> 's) \<Rightarrow>
   (string \<times> string) list option \<Rightarrow> 's \<Rightarrow> response \<times> 's" where
  "Handler_ListProducts ParseFloat svc_ListProducts parsed s =
     (case parsed of
        None \<Rightarrow> (http_Error ''Invalid input'' 400, s)
      | Some form \<Rightarrow>
          (let (flt, pagination) = ListProducts_params ParseFloat form in
           case svc_ListProducts flt pagination s of
             (Inl err, s') \<Rightarrow> (http_Error ''Internal server error'' 500, s')
           | (Inr (prods, totalCount), s') \<Rightarrow>
               (\<lparr>status = 200,
                 body = ListJSON prods totalCount (Page pagination) (Limit pagination)\<rparr>, s')))"

definition Handler_UpdateProduct ::
  "(int \<Rightarrow> UpdateProductInput \<Rightarrow> 's \<Rightarrow> goerr option \<times> 's) \<Rightarrow>
   string \<Rightarrow> UpdateProductInput option \<Rightarrow> 's \<Rightarrow> response \<times> 's" where
  "Handler_UpdateProduct svc_UpdateProduct id_param decoded s =
     (case ParseInt id_param of
        (pid, Some err) \<Rightarrow> (http_Error ''Invalid product ID'' 400, s)
      | (pid, None) \<Rightarrow>
          (case decoded of
             None \<Rightarrow> (http_Error ''Invalid input'' 400, s)
           | Some input \<Rightarrow>
               (case svc_UpdateProduct pid input s of
                  (Some err, s') \<Rightarrow>
                    if err = ErrProductNotFound then (http_Error (err_Error err) 404, s')
                    else if err = ErrInvalidInput then (http_Error (err_Error err) 400, s')
                    else (http_Error ''Internal server error'' 500, s')
                | (None, s') \<Rightarrow> (\<lparr>status = 204, body = NoBody\<rparr>, s'))))"

definition Handler_DeleteProduct ::
  "(int \<Rightarrow> 's \<Rightarrow> goerr option \<times> 's) \<Rightarrow> string \<Rightarrow> 's \<Rightarrow> response \<times> 's" where
  "Handler_DeleteProduct svc_DeleteProduct id_param s =
     (case ParseInt id_param of
        (pid, Some err) \<Rightarrow> (http_Error ''Invalid product ID'' 400, s)
      | (pid, None) \<Rightarrow>
          (case svc_DeleteProduct pid s of
             (Some err, s') \<Rightarrow>
               if err = ErrProductNotFound then (http_Error (err_Error err) 404, s')
               else (http_Error ''Internal server error'' 500, s')
           | (None, s') \<Rightarrow> (\<lparr>status = 204, body = NoBody\<rparr>, s')))"


section \<open>Notions used by the properties\<close>

subsection \<open>A small database\<close>

definition lamp :: Product where
  "lamp = \<lparr>ID = 1, Name = ''Lamp'', Description = ''desk lamp'', Price = 15,
            Categories = [''Home'', ''Light''], CreatedAt = 5, UpdatedAt = 5\<rparr>"

definition pen :: Product where
  "pen = \<lparr>ID = 2, Name = ''Pen'', Description = ''blue pen'', Price = 2,
           Categories = [''Office''], CreatedAt = 7, UpdatedAt = 7\<rparr>"

definition shop :: db where
  "shop = \<lparr>products = [lamp, pen], next_id = 3, now = 10,
            ts_match = (\<lambda>doc q. sublist q doc), converts_slices = True\<rparr>"

definition no_fields :: UpdateProductInput where
  "no_fields = \<lparr>UpdateProductInput.Name = None, Description = None, Price = None,
                 Categories = None\<rparr>"

definition price_only :: UpdateProductInput where
  "price_only = \<lparr>UpdateProductInput.Name = None, Description = None,
                  Price = Some (1999 / 100), Categories = None\<rparr>"

definition blank_input :: CreateProductInput where
  "blank_input =
     \<lparr>CreateProductInput.Name = [], Description = [], Price = 0, Categories = [''Misc'']\<rparr>"

definition no_filter :: "string ProductFilter" where
  "no_filter = \<lparr>CategoryID = None, MinPrice = None, MaxPrice = None, Search = None\<rparr>"



subsection \<open>Partial updates\<close>

text \<open>
  \<open>Update_present\<close>: some field of the input is present. \<open>fits_columns\<close>: the present
  name and price are values their columns accept. \<open>written t input p\<close>: the row \<open>p\<close>
  with each present field of \<open>input\<close> stored (the price as the column rounds it), every
  absent field as it was, and \<open>updated_at\<close> set to \<open>t\<close>.
\<close>

definition Update_present :: "UpdateProductInput \<Rightarrow> bool" where
  "Update_present input =
     (UpdateProductInput.Name input \<noteq> None \<or> UpdateProductInput.Description input \<noteq> None \<or>
      UpdateProductInput.Price input \<noteq> None \<or> UpdateProductInput.Categories input \<noteq> None)"

definition fits_columns :: "UpdateProductInput \<Rightarrow> bool" where
  "fits_columns input =
     ((case UpdateProductInput.Name input of None \<Rightarrow> True | Some v \<Rightarrow> length v \<le> 255) \<and>
      (case UpdateProductInput.Price input of None \<Rightarrow> True | Some v \<Rightarrow> \<bar>round_2 v\<bar> < 10 ^ 8))"


definition written :: "nat \<Rightarrow> UpdateProductInput \<Rightarrow> Product \<Rightarrow> Product" where
  "written t input p =
     p\<lparr>Name := (case UpdateProductInput.Name input of None \<Rightarrow> Name p | Some v \<Rightarrow> v),
       Description :=
         (case UpdateProductInput.Description input of None \<Rightarrow> Description p | Some v \<Rightarrow> v),
       Price := (case UpdateProductInput.Price input of None \<Rightarrow> Price p | Some v \<Rightarrow> round_2 v),
       Categories :=
         (case UpdateProductInput.Categories input of None \<Rightarrow> Categories p | Some v \<Rightarrow> v),
       UpdatedAt := t\<rparr>"

subsection \<open>Filters\<close>

text \<open>
  A string filter counts as supplied when it is neither \<^verbatim>\<open>nil\<close> nor empty.
  \<open>plan_of\<close> lists the conditions of a \<^verbatim>\<open>WHERE\<close> clause for each choice of supplied
  filters, numbered as \<open>List\<close> numbers them; \<open>cond_text\<close>, \<open>page_text\<close> and
  \<open>count_text\<close> are the statement texts with these conditions.
  \<open>List_filter_args\<close> are the arguments of the conditions alone.
\<close>

definition supplied :: "string option \<Rightarrow> bool" where
  "supplied x = (case x of None \<Rightarrow> False | Some s \<Rightarrow> s \<noteq> [])"

definition plan_of :: "bool \<Rightarrow> bool \<Rightarrow> bool \<Rightarrow> bool \<Rightarrow> cond list" where
  "plan_of c lo hi q =
     (let cs1 = (if c then [CategoryILike 1] else []);
          cs2 = cs1 @ (if lo then [PriceGe (Suc (length cs1))] else []);
          cs3 = cs2 @ (if hi then [PriceLe (Suc (length cs2))] else []);
          cs4 = cs3 @ (if q then [TextSearch (Suc (length cs3)) (Suc (length cs3))] else [])
      in cs4)"

definition List_plan :: "string ProductFilter \<Rightarrow> cond list" where
  "List_plan flt =
     plan_of (supplied (CategoryID flt)) (MinPrice flt \<noteq> None) (MaxPrice flt \<noteq> None)
       (supplied (Search flt))"

fun cond_text :: "cond \<Rightarrow> string" where
  "cond_text (CategoryILike k) =
     ''EXISTS (SELECT 1 FROM unnest(categories) category WHERE category ILIKE $'' @
     show_nat k @ '')''"
| "cond_text (PriceGe k) = ''price >= $'' @ show_nat k"
| "cond_text (PriceLe k) = ''price <= $'' @ show_nat k"
| "cond_text (TextSearch k m) =
     ''(to_tsvector('english', name) @@ plainto_tsquery('english', $'' @ show_nat k @
     '') OR to_tsvector('english', description) @@ plainto_tsquery('english', $'' @
     show_nat m @ ''))''"

definition where_text :: "cond list \<Rightarrow> string" where
  "where_text cs = (if cs = [] then [] else '' WHERE '' @ Join (map cond_text cs) '' AND '')"

definition page_text :: "cond list \<Rightarrow> string" where
  "page_text cs =
     ''SELECT * FROM products'' @ where_text cs @ '' ORDER BY created_at DESC LIMIT $'' @
     show_nat (Suc (length cs)) @ '' OFFSET $'' @ show_nat (Suc (Suc (length cs)))"

definition count_text :: "cond list \<Rightarrow> string" where
  "count_text cs = ''SELECT COUNT(*) FROM products'' @ where_text cs"

definition List_filter_args :: "string ProductFilter \<Rightarrow> sqlarg list" where
  "List_filter_args flt =
     (case CategoryID flt of
        None \<Rightarrow> []
      | Some c \<Rightarrow> if c = [] then [] else [AString (''%'' @ c @ ''%'')]) @
     (case MinPrice flt of None \<Rightarrow> [] | Some v \<Rightarrow> [AFloat v]) @
     (case MaxPrice flt of None \<Rightarrow> [] | Some v \<Rightarrow> [AFloat v]) @
     (case Search flt of None \<Rightarrow> [] | Some q \<Rightarrow> if q = [] then [] else [AString q])"

text \<open>
  \<open>filter_matches\<close>: what the \<^verbatim>\<open>WHERE\<close> clause built for a filter comes to on a row,
  with \<^verbatim>\<open>ILIKE\<close> as the server evaluates it.
\<close>

definition filter_matches :: "(string \<Rightarrow> string \<Rightarrow> bool) \<Rightarrow> string ProductFilter \<Rightarrow> Product \<Rightarrow> bool" where
  "filter_matches ts flt p =
     ((case CategoryID flt of
         None \<Rightarrow> True
       | Some c \<Rightarrow>
           c = [] \<or> list_ex (\<lambda>category. ilike category (''%'' @ c @ ''%'')) (Categories p)) \<and>
      (case MinPrice flt of None \<Rightarrow> True | Some v \<Rightarrow> v \<le> Price p) \<and>
      (case MaxPrice flt of None \<Rightarrow> True | Some v \<Rightarrow> Price p \<le> v) \<and>
      (case Search flt of
         None \<Rightarrow> True
       | Some q \<Rightarrow> q = [] \<or> ts (Name p) q \<or> ts (Description p) q))"





section \<open>Lemmas\<close>

subsection \<open>Statement texts are read back as they were built\<close>

lemmas parse_defs = prepare_def parse_page_def parse_count_def parse_update_def parse_where_def
  parse_cond_def parse_assign_def parse_param_def digit_of_def
  Create_query_def GetByID_query_def Delete_query_def nl_tabs_def

lemma show_nat_small:
  "show_nat (Suc 0) = ''1''"
  "show_nat (Suc (Suc 0)) = ''2''"
  "show_nat (Suc (Suc (Suc 0))) = ''3''"
  "show_nat (Suc (Suc (Suc (Suc 0)))) = ''4''"
  "show_nat (Suc (Suc (Suc (Suc (Suc 0))))) = ''5''"
  "show_nat (Suc (Suc (Suc (Suc (Suc (Suc 0)))))) = ''6''"
  by (simp_all add: show_nat.simps digit_char_def)

lemma prepare_fixed:
  "prepare Create_query = Some InsertReturning"
  "prepare GetByID_query = Some SelectByID"
  "prepare Delete_query = Some DeleteByID"
  by (simp_all add: parse_defs)

lemma ParseInt_3: "ParseInt ''3'' = (3, None)"
  by (simp add: ParseInt_def ParseUint_def digit_of_def maxUint64_def)

lemma ParseInt_2: "ParseInt ''2'' = (2, None)"
  by (simp add: ParseInt_def ParseUint_def digit_of_def maxUint64_def)

lemma ParseInt_error_value:
  "snd (ParseInt s) \<noteq> None \<Longrightarrow> fst (ParseInt s) \<in> {0, 2 ^ 63 - 1, - (2 ^ 63)}"
  "snd (ParseInt s) = Some ErrSyntax \<Longrightarrow> fst (ParseInt s) = 0"
  by (auto simp: ParseInt_def Let_def split: prod.splits if_splits)

subsection \<open>Arguments on their way to the driver\<close>

lemma driver_args_plain:
  "list_all (\<lambda>a. \<forall>xs. a \<noteq> ASlice xs) args \<Longrightarrow> driver_args conv args = Some args"
proof (induction args)
  case Nil
  then show ?case by simp
next
  case (Cons a args)
  then show ?case by (cases a) simp_all
qed

lemma driver_args_List:
  "driver_args conv (List_filter_args flt @ [AInt l, AInt off]) =
     Some (List_filter_args flt @ [AInt l, AInt off])"
  "driver_args conv (List_filter_args flt) = Some (List_filter_args flt)"
  by (rule driver_args_plain;
      simp add: List_filter_args_def split: option.splits)+

subsection \<open>Rows by id\<close>

lemma filter_no_match:
  "pid \<notin> ID ` set ps \<Longrightarrow> filter (\<lambda>p. ID p = pid) ps = []"
  "pid \<notin> ID ` set ps \<Longrightarrow> filter (\<lambda>p. ID p \<noteq> pid) ps = ps"
  by (induction ps) auto


lemma shop_ids: "ID ` set (products shop) = {1, 2}"
  by (auto simp: shop_def lamp_def pen_def)


lemma db_exec_Delete:
  "db_exec d Delete_query [AInt pid] =
     Inr (Affected (length (filter (\<lambda>p. ID p = pid) (products d))),
          d\<lparr>products := filter (\<lambda>p. ID p \<noteq> pid) (products d)\<rparr>)"
  by (simp add: db_exec_def prepare_fixed bind_ok_def run_delete_def arg_at_def)


lemma repository_Delete_missing:
  "pid \<notin> ID ` set (products d) \<Longrightarrow>
     repository_Delete pid d = (Some (Errorf ''product not found''), d)"
  by (simp add: repository_Delete_def ExecContext_def db_exec_Delete filter_no_match)

lemma repository_Delete_removes:
  "pid \<notin> ID ` set (products (snd (repository_Delete pid d)))"
  by (auto simp: repository_Delete_def ExecContext_def db_exec_Delete)


subsection \<open>The update statement\<close>

lemma Update_statement:
  assumes "Update_present input"
    and "UpdateProductInput.Categories input = None \<or> conv"
  shows "\<exists>as k vs. driver_args conv (snd (Update_build pid input)) = Some vs \<and>
           prepare (fst (Update_build pid input)) = Some (UpdateByID as k) \<and>
           bind_ok (UpdateByID as k) vs \<and>
           distinct (map assign_target as) \<and>
           list_all (assign_typed vs) as \<and>
           as_int (arg_at vs k) = Some pid \<and>
           (\<forall>t p. apply_assigns t vs as p =
                    (if fits_columns input then Some (written t input p) else None))"
  using assms
  by (cases "UpdateProductInput.Name input"; cases "UpdateProductInput.Description input";
      cases "UpdateProductInput.Price input"; cases "UpdateProductInput.Categories input";
      simp add: Update_present_def Update_build_def TrimSuffix_def HasSuffix_def Let_def
        show_nat_small parse_defs bind_ok_def arg_at_def fits_columns_def written_def
        varchar_255_def numeric_10_2_def upt_rec)

lemma Update_slice_refused:
  assumes "UpdateProductInput.Categories input \<noteq> None"
  shows "driver_args False (snd (Update_build pid input)) = None"
  using assms
  by (cases "UpdateProductInput.Name input"; cases "UpdateProductInput.Description input";
      cases "UpdateProductInput.Price input"; cases "UpdateProductInput.Categories input";
      simp add: Update_build_def Let_def)

lemma update_rows_missing:
  "i \<notin> ID ` set ps \<Longrightarrow> update_rows t args as i ps = Some ps"
  by (induction ps) auto


lemma db_exec_Update_missing:
  assumes "Update_present input"
    and "UpdateProductInput.Categories input = None \<or> converts_slices d"
    and "pid \<notin> ID ` set (products d)"
  shows "db_exec d (fst (Update_build pid input)) (snd (Update_build pid input)) =
           Inr (Affected 0, d)"
proof -
  obtain as k vs
    where "driver_args (converts_slices d) (snd (Update_build pid input)) = Some vs"
    and "prepare (fst (Update_build pid input)) = Some (UpdateByID as k)"
    and "bind_ok (UpdateByID as k) vs"
    and "distinct (map assign_target as)"
    and "list_all (assign_typed vs) as"
    and "as_int (arg_at vs k) = Some pid"
    using Update_statement [OF assms(1,2), of pid] by blast
  then show ?thesis
    using assms(3)
    by (simp add: db_exec_def run_update_def update_rows_missing filter_no_match)
qed

lemma db_exec_Update_refused:
  assumes "UpdateProductInput.Categories input \<noteq> None" and "\<not> converts_slices d"
  shows "db_exec d (fst (Update_build pid input)) (snd (Update_build pid input)) =
           Inl (DriverError ''sql: converting argument: unsupported type []string'')"
  using Update_slice_refused [OF assms(1), of pid] assms(2) by (simp add: db_exec_def)


lemma Update_build_no_fields:
  "\<not> Update_present input \<Longrightarrow>
     Update_build pid input =
       (''UPDATE products SET , updated_at = NOW() WHERE id = $1'', [AInt pid])"
  by (simp add: Update_present_def Update_build_def TrimSuffix_def HasSuffix_def Let_def
      show_nat_small)

lemma prepare_no_fields:
  "prepare ''UPDATE products SET , updated_at = NOW() WHERE id = $1'' = None"
  by (simp add: parse_defs)

lemma repository_Update_no_fields:
  "\<not> Update_present input \<Longrightarrow>
     repository_Update pid input d =
       (Some (Wrapf ''error updating product'' (DriverError ''pq: syntax error'')), d)"
  by (simp add: repository_Update_def Update_build_no_fields ExecContext_def db_exec_def
      prepare_no_fields)

lemma repository_Update_missing:
  assumes "Update_present input"
    and "UpdateProductInput.Categories input = None \<or> converts_slices d"
    and "pid \<notin> ID ` set (products d)"
  shows "repository_Update pid input d = (Some (Errorf ''product not found''), d)"
  using db_exec_Update_missing [OF assms]
  by (simp add: repository_Update_def ExecContext_def case_prod_beta)

lemma repository_Update_refused:
  assumes "UpdateProductInput.Categories input \<noteq> None" and "\<not> converts_slices d"
  shows "repository_Update pid input d =
           (Some (Wrapf ''error updating product''
              (DriverError ''sql: converting argument: unsupported type []string'')), d)"
  using db_exec_Update_refused [OF assms, of pid]
  by (simp add: repository_Update_def ExecContext_def case_prod_beta)

lemma repository_Update_answers_error:
  assumes "pid \<notin> ID ` set (products d)"
  shows "\<exists>err. repository_Update pid input d = (Some err, d) \<and>
           err \<noteq> ErrProductNotFound \<and> err \<noteq> ErrInvalidInput \<and>
           \<not> errors_Is err SqlErrNoRows"
proof (cases "Update_present input")
  case False
  then show ?thesis
    by (simp add: repository_Update_no_fields)
next
  case True
  show ?thesis
  proof (cases "UpdateProductInput.Categories input = None \<or> converts_slices d")
    case True
    with \<open>Update_present input\<close> assms show ?thesis
      by (simp add: repository_Update_missing)
  next
    case False
    then show ?thesis
      by (simp add: repository_Update_refused)
  qed
qed



subsection \<open>The page and the count statement\<close>

lemma opt_string_cases:
  assumes "x = None \<Longrightarrow> P" and "x = Some [] \<Longrightarrow> P" and "\<And>c. x = Some c \<Longrightarrow> c \<noteq> [] \<Longrightarrow> P"
  shows P
  using assms by (cases x) auto

lemma List_build_texts:
  "List_build flt pg =
     (page_text (List_plan flt), count_text (List_plan flt),
      List_filter_args flt @ [AInt (sint (Limit pg)), AInt (sint ((Page pg - 1) * Limit pg))])"
  by (rule opt_string_cases [of "CategoryID flt"]; rule opt_string_cases [of "Search flt"];
      cases "MinPrice flt"; cases "MaxPrice flt";
      simp add: List_build_def List_filter_args_def Let_def List_plan_def plan_of_def supplied_def
        page_text_def count_text_def where_text_def)

lemma plans_roundtrip:
  "list_all (\<lambda>cs. prepare (page_text cs) =
                    Some (SelectPage cs (Suc (length cs)) (Suc (Suc (length cs)))) \<and>
                  prepare (count_text cs) = Some (SelectCount cs))
     (concat (map (\<lambda>c. concat (map (\<lambda>lo. concat (map (\<lambda>hi. map (\<lambda>q. plan_of c lo hi q)
        [False, True]) [False, True])) [False, True])) [False, True]))"
  by code_simp

lemma plan_roundtrip:
  "prepare (page_text (plan_of c lo hi q)) =
     Some (SelectPage (plan_of c lo hi q) (Suc (length (plan_of c lo hi q)))
            (Suc (Suc (length (plan_of c lo hi q)))))"
  "prepare (count_text (plan_of c lo hi q)) = Some (SelectCount (plan_of c lo hi q))"
  using plans_roundtrip by (cases c; cases lo; cases hi; cases q; simp)+

lemma List_plan_prepare:
  "prepare (page_text (List_plan flt)) =
     Some (SelectPage (List_plan flt) (Suc (length (List_plan flt)))
            (Suc (Suc (length (List_plan flt)))))"
  "prepare (count_text (List_plan flt)) = Some (SelectCount (List_plan flt))"
  unfolding List_plan_def by (rule plan_roundtrip)+

lemma List_plan_length: "length (List_filter_args flt) = length (List_plan flt)"
  by (rule opt_string_cases [of "CategoryID flt"]; rule opt_string_cases [of "Search flt"];
      cases "MinPrice flt"; cases "MaxPrice flt";
      simp add: List_filter_args_def List_plan_def plan_of_def supplied_def)

lemma List_plan_bind:
  "bind_ok (SelectPage (List_plan flt) (Suc (length (List_plan flt)))
              (Suc (Suc (length (List_plan flt)))))
     (List_filter_args flt @ [a, b])"
  "bind_ok (SelectCount (List_plan flt)) (List_filter_args flt)"
  by (rule opt_string_cases [of "CategoryID flt"]; rule opt_string_cases [of "Search flt"];
      cases "MinPrice flt"; cases "MaxPrice flt";
      simp add: List_filter_args_def List_plan_def plan_of_def supplied_def bind_ok_def upt_rec)+

lemma List_plan_typed:
  "list_all (cond_typed (List_filter_args flt @ rest)) (List_plan flt)"
  by (rule opt_string_cases [of "CategoryID flt"]; rule opt_string_cases [of "Search flt"];
      cases "MinPrice flt"; cases "MaxPrice flt";
      simp add: List_filter_args_def List_plan_def plan_of_def supplied_def arg_at_def)

lemma List_plan_holds:
  "list_all (cond_holds ts (List_filter_args flt @ rest) p) (List_plan flt) =
     filter_matches ts flt p"
  by (rule opt_string_cases [of "CategoryID flt"]; rule opt_string_cases [of "Search flt"];
      cases "MinPrice flt"; cases "MaxPrice flt";
      simp add: List_filter_args_def List_plan_def plan_of_def supplied_def arg_at_def
        filter_matches_def)

lemma where_rows_List:
  "where_rows d (List_filter_args flt @ rest) (List_plan flt) =
     filter (filter_matches (ts_match d) flt) (products d)"
  by (simp add: where_rows_def List_plan_holds)

lemma db_exec_page:
  "db_exec d (page_text (List_plan flt)) (List_filter_args flt @ [AInt l, AInt off]) =
     (if l < 0 then Inl (DriverError ''pq: LIMIT must not be negative'')
      else if off < 0 then Inl (DriverError ''pq: OFFSET must not be negative'')
      else Inr (Rows (take (nat l) (drop (nat off)
             (order_created_desc (filter (filter_matches (ts_match d) flt) (products d))))), d))"
  by (simp add: db_exec_def driver_args_List List_plan_prepare List_plan_bind run_page_def
      List_plan_typed where_rows_List arg_at_def List_plan_length nth_append)

lemma db_exec_count:
  "db_exec d (count_text (List_plan flt)) (List_filter_args flt) =
     Inr (Count (length (filter (filter_matches (ts_match d) flt) (products d))), d)"
  using List_plan_typed [of flt "[]"] where_rows_List [of d flt "[]"]
  by (simp add: db_exec_def driver_args_List List_plan_prepare List_plan_bind run_count_def)

lemma repository_List_eq:
  "repository_List flt pg d =
     (if sint (Limit pg) < 0 then
        (Inl (Wrapf ''error listing products'' (DriverError ''pq: LIMIT must not be negative'')), d)
      else if sint ((Page pg - 1) * Limit pg) < 0 then
        (Inl (Wrapf ''error listing products'' (DriverError ''pq: OFFSET must not be negative'')), d)
      else
        (Inr (take (nat (sint (Limit pg))) (drop (nat (sint ((Page pg - 1) * Limit pg)))
                (order_created_desc (filter (filter_matches (ts_match d) flt) (products d)))),
              length (filter (filter_matches (ts_match d) flt) (products d))), d))"
  by (simp add: repository_List_def List_build_texts SelectContext_def GetContext_int_def
      db_exec_page db_exec_count)

subsection \<open>LIKE patterns without wildcards\<close>










subsection \<open>Signed 64-bit arithmetic and ordering\<close>

lemma sint_mult_no_overflow:
  fixes a b :: "64 word"
  assumes "- (2 ^ 63) \<le> sint a * sint b" "sint a * sint b < 2 ^ 63"
  shows "sint (a * b) = sint a * sint b"
  using assms by (simp add: sint_word_ariths signed_take_bit_int_eq_self)

lemma sint_page_minus_1:
  fixes a :: "64 word"
  assumes "1 \<le> sint a"
  shows "sint (a - 1) = sint a - 1"
proof -
  have "sint a < 2 ^ 63" using sint_lt [of a] by simp
  with assms show ?thesis
    by (simp add: sint_word_ariths signed_take_bit_int_eq_self)
qed

lemma order_created_desc_sorted:
  "sorted_wrt (\<lambda>a b. CreatedAt b \<le> CreatedAt a) (order_created_desc ps)"
proof -
  have "sorted (map CreatedAt (sort_key CreatedAt ps))" by simp
  then have "sorted_wrt (\<lambda>a b. CreatedAt a \<le> CreatedAt b) (sort_key CreatedAt ps)"
    by (simp add: sorted_map)
  then show ?thesis
    by (simp add: order_created_desc_def sorted_wrt_rev)
qed

lemma order_created_desc_mset: "mset (order_created_desc ps) = mset ps"
  by (simp add: order_created_desc_def)

subsection \<open>The handler's pagination\<close>

lemma ListProducts_params_range:
  "1 \<le> sint (Page (snd (ListProducts_params PF form))) \<and>
   1 \<le> sint (Limit (snd (ListProducts_params PF form))) \<and>
   sint (Limit (snd (ListProducts_params PF form))) \<le> 100"
  by (simp add: ListProducts_params_def Let_def)

lemma validator_pagination:
  "validator_Struct (PaginationParams_fields pg) =
     (1 \<le> sint (Page pg) \<and> 1 \<le> sint (Limit pg) \<and> sint (Limit pg) \<le> 100)"
  by (auto simp: validator_Struct_def PaginationParams_fields_def)

lemma Atoi_limit_default:
  "snd (Atoi s) \<noteq> None \<Longrightarrow>
     sint (word_of_int (fst (Atoi s)) :: 64 word) < 1 \<or>
     sint (word_of_int (fst (Atoi s)) :: 64 word) > 100"
  using ParseInt_error_value(1) [of s] by (auto simp: Atoi_def)

lemma service_CreateProduct_calls:
  "service_CreateProduct repo_Create input s =
     repo_Create \<lparr>ID = 0, Name = CreateProductInput.Name input,
                  Description = CreateProductInput.Description input,
                  Price = CreateProductInput.Price input,
                  Categories = CreateProductInput.Categories input,
                  CreatedAt = 0, UpdatedAt = 0\<rparr> s"
  by (simp add: service_CreateProduct_def validator_Struct_def CreateProductInput_fields_def
      split: prod.splits sum.splits)

lemma db_exec_Create:
  "db_exec d Create_query [AString n, AString ds, AFloat pr, AStrings cs] =
     (if length n \<le> 255 \<and> \<bar>round_2 pr\<bar> < 10 ^ 8 then
        Inr (Returning (next_id d) (now d) (now d),
             d\<lparr>products := products d @
                  [\<lparr>ID = next_id d, Name = n, Description = ds, Price = round_2 pr,
                    Categories = cs, CreatedAt = now d, UpdatedAt = now d\<rparr>],
               next_id := next_id d + 1\<rparr>)
      else Inl (DriverError ''pq: value out of range for its column''))"
  by (simp add: db_exec_def prepare_fixed bind_ok_def run_insert_def arg_at_def upt_rec
      varchar_255_def numeric_10_2_def)

lemma round_2_examples:
  "round_2 0 = 0" "round_2 (1999 / 100) = 1999 / 100"
  by (simp_all add: round_2_def floor_unique)


lemma shop_newest_first: "order_created_desc [lamp, pen] = [pen, lamp]"
  by (simp add: order_created_desc_def sort_key_def lamp_def pen_def)

lemma shop_rows: "products shop = [lamp, pen]" "ts_match shop = (\<lambda>doc q. sublist q doc)"
  by (simp_all add: shop_def)

lemma ListProducts_params_fields:
  "CategoryID (fst (ListProducts_params PF form)) =
     (if Form_Get form ''category_id'' \<noteq> [] \<and> snd (ParseInt (Form_Get form ''category_id'')) = None
      then Some (fst (ParseInt (Form_Get form ''category_id''))) else None)"
  "MinPrice (fst (ListProducts_params PF form)) =
     (if Form_Get form ''min_price'' \<noteq> [] then PF (Form_Get form ''min_price'') else None)"
  "MaxPrice (fst (ListProducts_params PF form)) =
     (if Form_Get form ''max_price'' \<noteq> [] then PF (Form_Get form ''max_price'') else None)"
  "Search (fst (ListProducts_params PF form)) =
     (if Form_Get form ''search'' \<noteq> [] then Some (Form_Get form ''search'') else None)"
  "Page (snd (ListProducts_params PF form)) =
     (if sint (word_of_int (fst (Atoi (Form_Get form ''page''))) :: 64 word) < 1 then 1
      else word_of_int (fst (Atoi (Form_Get form ''page''))))"
  "Limit (snd (ListProducts_params PF form)) =
     (if sint (word_of_int (fst (Atoi (Form_Get form ''limit''))) :: 64 word) < 1 \<or>
         sint (word_of_int (fst (Atoi (Form_Get form ''limit''))) :: 64 word) > 100 then 10
      else word_of_int (fst (Atoi (Form_Get form ''limit''))))"
  by (simp_all add: ListProducts_params_def Let_def split: prod.splits option.splits)

lemma Atoi_examples:
  "Atoi ''two'' = (0, Some ErrSyntax)"
  "Atoi ''1000'' = (1000, None)"
  "Atoi [] = (0, Some ErrSyntax)"
  "ParseInt ''shoes'' = (0, Some ErrSyntax)"
  "ParseInt ''x'' = (0, Some ErrSyntax)"
  by (simp_all add: Atoi_def ParseInt_def ParseUint_def digit_of_def maxUint64_def)

section \<open>The claims\<close>

text \<open>
  Claim C1. For an id that matches no row, \<open>Delete\<close> and \<open>Update\<close> should fail with
  \<open>ErrProductNotFound\<close> and status 404. The repository reports the missing row with a
  fresh \<^verbatim>\<open>fmt.Errorf("product not found")\<close> that wraps nothing, so the service's
  \<^verbatim>\<open>errors.Is(err, sql.ErrNoRows)\<close> is false and the handler answers 500: for every
  database, every id that matches no row and every update input, both handlers answer
  500, the services never return \<open>ErrProductNotFound\<close>, and a second delete of the
  same id answers 500 as well. (An update that fails earlier, on its statement or on
  an argument, answers 500 too.)
\<close>

theorem missing_id_answers_500:
  assumes "pid \<notin> ID ` set (products d)" and "ParseInt id_param = (pid, None)"
  shows "service_DeleteProduct repository_Delete pid d = (Some (Errorf ''product not found''), d) \<and>
         Handler_DeleteProduct (service_DeleteProduct repository_Delete) id_param d =
           (\<lparr>status = 500, body = Text ''Internal server error''\<rparr>, d) \<and>
         fst (service_UpdateProduct repository_Update pid input d) \<noteq> Some ErrProductNotFound \<and>
         Handler_UpdateProduct (service_UpdateProduct repository_Update) id_param (Some input) d =
           (\<lparr>status = 500, body = Text ''Internal server error''\<rparr>, d) \<and>
         fst (Handler_DeleteProduct (service_DeleteProduct repository_Delete) id_param
               (snd (Handler_DeleteProduct (service_DeleteProduct repository_Delete) id_param d0))) =
           \<lparr>status = 500, body = Text ''Internal server error''\<rparr>"
proof -
  have del: "service_DeleteProduct repository_Delete pid d = (Some (Errorf ''product not found''), d)"
    by (simp add: service_DeleteProduct_def repository_Delete_missing assms(1))
  have hdel: "\<And>d'. pid \<notin> ID ` set (products d') \<Longrightarrow>
      Handler_DeleteProduct (service_DeleteProduct repository_Delete) id_param d' =
        (\<lparr>status = 500, body = Text ''Internal server error''\<rparr>, d')"
    by (simp add: Handler_DeleteProduct_def assms(2) service_DeleteProduct_def
        repository_Delete_missing http_Error_def)
  obtain err where "repository_Update pid input d = (Some err, d)"
    and err: "err \<noteq> ErrProductNotFound" "err \<noteq> ErrInvalidInput"
    and "\<not> errors_Is err SqlErrNoRows"
    using repository_Update_answers_error [OF assms(1)] by blast
  then have upd: "service_UpdateProduct repository_Update pid input d = (Some err, d)"
    by (simp add: service_UpdateProduct_def validator_Struct_def UpdateProductInput_fields_def)
  have hupd: "Handler_UpdateProduct (service_UpdateProduct repository_Update) id_param (Some input) d =
           (\<lparr>status = 500, body = Text ''Internal server error''\<rparr>, d)"
    by (simp add: Handler_UpdateProduct_def assms(2) upd err http_Error_def)
  have gone: "pid \<notin> ID ` set (products
      (snd (Handler_DeleteProduct (service_DeleteProduct repository_Delete) id_param d0)))"
  proof -
    have "snd (Handler_DeleteProduct (service_DeleteProduct repository_Delete) id_param d0) =
          snd (repository_Delete pid d0)"
      by (simp add: Handler_DeleteProduct_def assms(2) service_DeleteProduct_def
          split: prod.splits option.splits)
    then show ?thesis
      using repository_Delete_removes [of pid d0] by simp
  qed
  show ?thesis
    using del hdel [OF assms(1)] hdel [OF gone] hupd by (simp add: upd err)
qed

theorem missing_id_answers_500_witness:
  "3 \<notin> ID ` set (products shop) \<and> ParseInt ''3'' = (3, None) \<and>
   Handler_DeleteProduct (service_DeleteProduct repository_Delete) ''3'' shop =
     (\<lparr>status = 500, body = Text ''Internal server error''\<rparr>, shop) \<and>
   Handler_UpdateProduct (service_UpdateProduct repository_Update) ''3'' (Some price_only) shop =
     (\<lparr>status = 500, body = Text ''Internal server error''\<rparr>, shop)"
proof -
  have h: "3 \<notin> ID ` set (products shop)"
    by (simp add: shop_ids)
  from missing_id_answers_500 [OF h ParseInt_3, of price_only] h ParseInt_3 show ?thesis
    by simp
qed



text \<open>
  Claim C2. An input with an empty required field should be rejected with
  \<open>ErrInvalidInput\<close> before the repository is called. \<open>CreateProductInput\<close> has no
  \<^verbatim>\<open>validate\<close> tag, so \<^verbatim>\<open>validator.Struct\<close> accepts every input: whatever the
  input and whatever the repository, \<open>CreateProduct\<close> hands the product to \<open>Create\<close>
  and returns what \<open>Create\<close> returns. With the repository of this package, whenever
  the columns accept the name, the price and the categories, the row is stored with
  the fields as given and the handler answers 201; this covers an empty name, an
  empty description and a zero price.
\<close>

theorem CreateProduct_never_validates:
  "validator_Struct (CreateProductInput_fields input) \<and>
   service_CreateProduct repo_Create input s =
     repo_Create \<lparr>ID = 0, Name = CreateProductInput.Name input,
                  Description = CreateProductInput.Description input,
                  Price = CreateProductInput.Price input,
                  Categories = CreateProductInput.Categories input,
                  CreatedAt = 0, UpdatedAt = 0\<rparr> s \<and>
   (length (CreateProductInput.Name input) \<le> 255 \<and>
    \<bar>round_2 (CreateProductInput.Price input)\<bar> < 10 ^ 8 \<and>
    CreateProductInput.Categories input \<noteq> [] \<longrightarrow>
      service_CreateProduct repository_Create input d =
        (Inr \<lparr>ID = next_id d, Name = CreateProductInput.Name input,
               Description = CreateProductInput.Description input,
               Price = CreateProductInput.Price input,
               Categories = CreateProductInput.Categories input,
               CreatedAt = now d, UpdatedAt = now d\<rparr>,
         d\<lparr>products := products d @
              [\<lparr>ID = next_id d, Name = CreateProductInput.Name input,
                Description = CreateProductInput.Description input,
                Price = round_2 (CreateProductInput.Price input),
                Categories = CreateProductInput.Categories input,
                CreatedAt = now d, UpdatedAt = now d\<rparr>],
           next_id := next_id d + 1\<rparr>) \<and>
      status (fst (Handler_CreateProduct (service_CreateProduct repository_Create)
                     (Some input) d)) = 201)"
  by (simp add: validator_Struct_def CreateProductInput_fields_def service_CreateProduct_calls
      repository_Create_def QueryRowx_StructScan_def db_exec_Create Handler_CreateProduct_def)

theorem CreateProduct_never_validates_witness:
  "length (CreateProductInput.Name blank_input) \<le> 255 \<and>
   \<bar>round_2 (CreateProductInput.Price blank_input)\<bar> < 10 ^ 8 \<and>
   CreateProductInput.Categories blank_input \<noteq> [] \<and>
   fst (service_CreateProduct repository_Create blank_input shop) =
     Inr \<lparr>ID = 3, Name = [], Description = [], Price = 0, Categories = [''Misc''],
           CreatedAt = 10, UpdatedAt = 10\<rparr> \<and>
   products (snd (service_CreateProduct repository_Create blank_input shop)) =
     [lamp, pen,
      \<lparr>ID = 3, Name = [], Description = [], Price = 0, Categories = [''Misc''],
        CreatedAt = 10, UpdatedAt = 10\<rparr>] \<and>
   status (fst (Handler_CreateProduct (service_CreateProduct repository_Create)
                  (Some blank_input) shop)) = 201"
proof -
  have a: "length (CreateProductInput.Name blank_input) \<le> 255"
    by (simp add: blank_input_def)
  have b: "\<bar>round_2 (CreateProductInput.Price blank_input)\<bar> < 10 ^ 8"
    by (simp add: blank_input_def round_2_examples)
  have c: "CreateProductInput.Categories blank_input \<noteq> []"
    by (simp add: blank_input_def)
  from CreateProduct_never_validates
    [of blank_input repository_Create shop shop, THEN conjunct2, THEN conjunct2] a b c
  show ?thesis
    by (simp add: blank_input_def shop_def round_2_examples)
qed




text \<open>
  Claim C10. For the update input with every field absent, \<open>Update\<close> builds the text
  \<^verbatim>\<open>UPDATE products SET , updated_at = NOW() WHERE id = $1\<close>: the trim of the trailing
  comma does not fire, because the text ends in \<^verbatim>\<open>SET \<close> and not in a comma and a
  space. The text contains \<^verbatim>\<open>SET , updated_at\<close>, the server refuses it as a syntax
  error whatever the database holds, and the handler answers 500, neither 204 nor 400.
\<close>

theorem Update_all_absent_is_refused:
  assumes "ParseInt id_param = (pid, None)"
  shows "Update_build pid no_fields =
           (''UPDATE products SET , updated_at = NOW() WHERE id = $1'', [AInt pid]) \<and>
         sublist ''SET , updated_at'' (fst (Update_build pid no_fields)) \<and>
         \<not> HasSuffix ''UPDATE products SET '' '', '' \<and>
         TrimSuffix ''UPDATE products SET '' '', '' = ''UPDATE products SET '' \<and>
         prepare (fst (Update_build pid no_fields)) = None \<and>
         repository_Update pid no_fields d =
           (Some (Wrapf ''error updating product'' (DriverError ''pq: syntax error'')), d) \<and>
         service_UpdateProduct repository_Update pid no_fields d =
           (Some (Wrapf ''error updating product'' (DriverError ''pq: syntax error'')), d) \<and>
         Handler_UpdateProduct (service_UpdateProduct repository_Update) id_param
             (Some no_fields) d =
           (\<lparr>status = 500, body = Text ''Internal server error''\<rparr>, d)"
proof -
  have np: "\<not> Update_present no_fields"
    by (simp add: Update_present_def no_fields_def)
  have "sublist ''SET , updated_at''
          (''UPDATE products '' @ ''SET , updated_at'' @ '' = NOW() WHERE id = $1'')"
    by (rule sublist_appendI)
  then have sub: "sublist ''SET , updated_at'' (fst (Update_build pid no_fields))"
    by (simp add: Update_build_no_fields [OF np])
  have svc: "service_UpdateProduct repository_Update pid no_fields d =
           (Some (Wrapf ''error updating product'' (DriverError ''pq: syntax error'')), d)"
    by (simp add: service_UpdateProduct_def validator_Struct_def UpdateProductInput_fields_def
        repository_Update_no_fields [OF np])
  show ?thesis
    using sub
    by (simp add: Update_build_no_fields [OF np] prepare_no_fields
        repository_Update_no_fields [OF np] svc Handler_UpdateProduct_def assms http_Error_def
        HasSuffix_def TrimSuffix_def)
qed

theorem Update_all_absent_is_refused_witness:
  "ParseInt ''2'' = (2, None) \<and>
   Handler_UpdateProduct (service_UpdateProduct repository_Update) ''2'' (Some no_fields) shop =
     (\<lparr>status = 500, body = Text ''Internal server error''\<rparr>, shop)"
  using Update_all_absent_is_refused [OF ParseInt_2, of shop] ParseInt_2 by simp






text \<open>
  Claim C7. \<open>List\<close> returns the matching rows ordered by \<open>created_at\<close> descending,
  skipping \<open>(page - 1) * limit\<close> rows and returning at most \<open>limit\<close> rows, and the total
  counts all matching rows whatever the page and the limit. As amended: this holds for
  every page of at least 1 and every limit that is not negative such that
  \<open>(page - 1) * limit\<close> fits a signed 64-bit integer; then \<open>List\<close> succeeds, and for some
  arrangement \<open>ms\<close> of the matching rows in descending order of \<open>created_at\<close> the page
  is \<open>limit\<close> rows of \<open>ms\<close> after the first \<open>(page - 1) * limit\<close>, and the total is
  the number of matching rows.
\<close>

theorem List_page_of_matching_rows:
  assumes "1 \<le> sint (Page pg)" and "0 \<le> sint (Limit pg)"
    and "(sint (Page pg) - 1) * sint (Limit pg) < 2 ^ 63"
  shows "\<exists>ms. mset ms = mset (filter (filter_matches (ts_match d) flt) (products d)) \<and>
              sorted_wrt (\<lambda>a b. CreatedAt b \<le> CreatedAt a) ms \<and>
              repository_List flt pg d =
                (Inr (take (nat (sint (Limit pg)))
                        (drop (nat ((sint (Page pg) - 1) * sint (Limit pg))) ms),
                      length (filter (filter_matches (ts_match d) flt) (products d))), d)"
proof -
  have nonneg: "0 \<le> (sint (Page pg) - 1) * sint (Limit pg)"
    using assms(1,2) by simp
  then have off: "sint ((Page pg - 1) * Limit pg) = (sint (Page pg) - 1) * sint (Limit pg)"
    using assms(1,3) sint_mult_no_overflow [of "Page pg - 1" "Limit pg"]
    by (simp add: sint_page_minus_1)
  let ?ms = "order_created_desc (filter (filter_matches (ts_match d) flt) (products d))"
  have "repository_List flt pg d =
          (Inr (take (nat (sint (Limit pg)))
                  (drop (nat ((sint (Page pg) - 1) * sint (Limit pg))) ?ms),
                length (filter (filter_matches (ts_match d) flt) (products d))), d)"
    using assms(2) nonneg by (simp add: repository_List_eq off)
  then show ?thesis
    using order_created_desc_mset order_created_desc_sorted by blast
qed

theorem List_page_of_matching_rows_witness:
  "1 \<le> sint (Page \<lparr>Page = 2, Limit = 1\<rparr>) \<and> 0 \<le> sint (Limit \<lparr>Page = 2, Limit = 1\<rparr>) \<and>
   (\<exists>ms. mset ms = mset (filter (filter_matches (ts_match shop) no_filter) (products shop)) \<and>
         sorted_wrt (\<lambda>a b. CreatedAt b \<le> CreatedAt a) ms \<and>
         repository_List no_filter \<lparr>Page = 2, Limit = 1\<rparr> shop =
           (Inr (take 1 (drop 1 ms), 2), shop)) \<and>
   repository_List no_filter \<lparr>Page = 2, Limit = 1\<rparr> shop = (Inr ([lamp], 2), shop)"
proof -
  have m: "filter (filter_matches (ts_match shop) no_filter) (products shop) = [lamp, pen]"
    by (simp add: filter_matches_def no_filter_def shop_rows)
  have r: "repository_List no_filter \<lparr>Page = 2, Limit = 1\<rparr> shop = (Inr ([lamp], 2), shop)"
    by (simp add: repository_List_eq m shop_newest_first)
  from List_page_of_matching_rows [where pg = "\<lparr>Page = 2, Limit = 1\<rparr>" and d = shop and flt = no_filter] r
  show ?thesis
    by (simp add: m)
qed

text \<open>
  The claim as stated fails where the offset overflows: for page \<open>2 ^ 62 + 1\<close> and
  limit 4 the product \<open>(page - 1) * limit\<close> is \<open>2 ^ 64\<close>, which wraps to the offset 0,
  so both rows are returned although skipping that many rows leaves none.
\<close>

theorem List_page_offset_wraps:
  "1 \<le> sint (2 ^ 62 + 1 :: 64 word) \<and>
   repository_List no_filter \<lparr>Page = 2 ^ 62 + 1, Limit = 4\<rparr> shop = (Inr ([pen, lamp], 2), shop) \<and>
   drop (nat ((sint (2 ^ 62 + 1 :: 64 word) - 1) * sint (4 :: 64 word))) [pen, lamp] = []"
proof -
  have m: "filter (filter_matches (ts_match shop) no_filter) (products shop) = [lamp, pen]"
    by (simp add: filter_matches_def no_filter_def shop_rows)
  show ?thesis
    by (simp add: repository_List_eq m shop_newest_first)
qed

text \<open>
  Claim C3. A request whose body or query values are malformed should be answered with
  400 at decode time, before the service runs. As amended: a body that cannot be
  decoded, a form that cannot be parsed and a path id that is not an integer are
  answered with 400 without calling the service, whatever the service is; a query value
  of \<open>ListProducts\<close> that fails to parse is never answered with 400: the service is
  called, a filter value that fails to parse is left unset, a page that is not a number
  becomes 1 and a limit that fails to parse becomes 10, and the answer is 200 or 500.
\<close>

theorem decode_failures:
  "Handler_CreateProduct svc_c None s = (\<lparr>status = 400, body = Text ''Invalid input''\<rparr>, s) \<and>
   Handler_ListProducts PF svc_l None s = (\<lparr>status = 400, body = Text ''Invalid input''\<rparr>, s) \<and>
   (snd (ParseInt id_param) = None \<longrightarrow>
      Handler_UpdateProduct svc_u id_param None s =
        (\<lparr>status = 400, body = Text ''Invalid input''\<rparr>, s)) \<and>
   (snd (ParseInt id_param) \<noteq> None \<longrightarrow>
      Handler_GetProduct svc_g id_param s =
        (\<lparr>status = 400, body = Text ''Invalid product ID''\<rparr>, s) \<and>
      Handler_UpdateProduct svc_u id_param decoded s =
        (\<lparr>status = 400, body = Text ''Invalid product ID''\<rparr>, s) \<and>
      Handler_DeleteProduct svc_d id_param s =
        (\<lparr>status = 400, body = Text ''Invalid product ID''\<rparr>, s)) \<and>
   (let (flt, pg) = ListProducts_params PF form in
      Handler_ListProducts PF svc_l (Some form) s =
        (case svc_l flt pg s of
           (Inl err, s') \<Rightarrow> (http_Error ''Internal server error'' 500, s')
         | (Inr (prods, totalCount), s') \<Rightarrow>
             (\<lparr>status = 200, body = ListJSON prods totalCount (Page pg) (Limit pg)\<rparr>, s')) \<and>
      status (fst (Handler_ListProducts PF svc_l (Some form) s)) \<noteq> 400 \<and>
      (snd (ParseInt (Form_Get form ''category_id'')) \<noteq> None \<longrightarrow> CategoryID flt = None) \<and>
      (PF (Form_Get form ''min_price'') = None \<longrightarrow> MinPrice flt = None) \<and>
      (PF (Form_Get form ''max_price'') = None \<longrightarrow> MaxPrice flt = None) \<and>
      (snd (Atoi (Form_Get form ''page'')) = Some ErrSyntax \<longrightarrow> Page pg = 1) \<and>
      (snd (Atoi (Form_Get form ''limit'')) \<noteq> None \<longrightarrow> Limit pg = 10))"
proof -
  have a: "Handler_CreateProduct svc_c None s = (\<lparr>status = 400, body = Text ''Invalid input''\<rparr>, s)"
    by (simp add: Handler_CreateProduct_def http_Error_def)
  have b: "Handler_ListProducts PF svc_l None s = (\<lparr>status = 400, body = Text ''Invalid input''\<rparr>, s)"
    by (simp add: Handler_ListProducts_def http_Error_def)
  have c: "snd (ParseInt id_param) = None \<longrightarrow>
      Handler_UpdateProduct svc_u id_param None s =
        (\<lparr>status = 400, body = Text ''Invalid input''\<rparr>, s)"
    by (cases "ParseInt id_param") (simp add: Handler_UpdateProduct_def http_Error_def)
  have d: "snd (ParseInt id_param) \<noteq> None \<longrightarrow>
      Handler_GetProduct svc_g id_param s =
        (\<lparr>status = 400, body = Text ''Invalid product ID''\<rparr>, s) \<and>
      Handler_UpdateProduct svc_u id_param decoded s =
        (\<lparr>status = 400, body = Text ''Invalid product ID''\<rparr>, s) \<and>
      Handler_DeleteProduct svc_d id_param s =
        (\<lparr>status = 400, body = Text ''Invalid product ID''\<rparr>, s)"
    by (cases "ParseInt id_param")
      (auto simp: Handler_GetProduct_def Handler_UpdateProduct_def Handler_DeleteProduct_def
        http_Error_def)
  obtain flt pg where fp: "ListProducts_params PF form = (flt, pg)"
    by (cases "ListProducts_params PF form")
  have flt: "flt = fst (ListProducts_params PF form)" and pg: "pg = snd (ListProducts_params PF form)"
    by (simp_all add: fp)
  have e1: "Handler_ListProducts PF svc_l (Some form) s =
        (case svc_l flt pg s of
           (Inl err, s') \<Rightarrow> (http_Error ''Internal server error'' 500, s')
         | (Inr (prods, totalCount), s') \<Rightarrow>
             (\<lparr>status = 200, body = ListJSON prods totalCount (Page pg) (Limit pg)\<rparr>, s'))"
    by (simp add: Handler_ListProducts_def fp)
  have e2: "status (fst (Handler_ListProducts PF svc_l (Some form) s)) \<noteq> 400"
    unfolding e1 by (simp add: http_Error_def split: prod.splits sum.splits)
  have e3: "snd (ParseInt (Form_Get form ''category_id'')) \<noteq> None \<longrightarrow> CategoryID flt = None"
    by (simp add: flt ListProducts_params_fields)
  have e4: "PF (Form_Get form ''min_price'') = None \<longrightarrow> MinPrice flt = None"
    by (simp add: flt ListProducts_params_fields)
  have e5: "PF (Form_Get form ''max_price'') = None \<longrightarrow> MaxPrice flt = None"
    by (simp add: flt ListProducts_params_fields)
  have e6: "snd (Atoi (Form_Get form ''page'')) = Some ErrSyntax \<longrightarrow> Page pg = 1"
    using ParseInt_error_value(2) [of "Form_Get form ''page''"]
    by (simp add: pg ListProducts_params_fields Atoi_def)
  have e7: "snd (Atoi (Form_Get form ''limit'')) \<noteq> None \<longrightarrow> Limit pg = 10"
    using Atoi_limit_default [of "Form_Get form ''limit''"]
    by (auto simp: pg ListProducts_params_fields)
  show ?thesis
    unfolding fp using a b c d e1 e2 e3 e4 e5 e6 e7 by simp
qed

theorem decode_failures_witness:
  "snd (ParseInt ''x'') \<noteq> None \<and>
   Handler_GetProduct (service_GetProductByID repository_GetByID) ''x'' shop =
     (\<lparr>status = 400, body = Text ''Invalid product ID''\<rparr>, shop) \<and>
   Handler_DeleteProduct (service_DeleteProduct repository_Delete) ''x'' shop =
     (\<lparr>status = 400, body = Text ''Invalid product ID''\<rparr>, shop) \<and>
   Handler_CreateProduct (service_CreateProduct repository_Create) None shop =
     (\<lparr>status = 400, body = Text ''Invalid input''\<rparr>, shop)"
proof -
  have h: "snd (ParseInt ''x'') \<noteq> None"
    by (simp add: Atoi_examples)
  from decode_failures [where id_param = "''x''" and s = shop
      and svc_g = "service_GetProductByID repository_GetByID"
      and svc_d = "service_DeleteProduct repository_Delete"
      and svc_c = "service_CreateProduct repository_Create"] h
  show ?thesis
    by simp
qed

text \<open>
  The claim as stated fails for query values: with a category id, a minimum price and a
  page that do not parse, \<open>ListProducts\<close> still calls the service (here one that
  returns no rows) with no filter, page 1 and limit 10, and answers 200.
\<close>

theorem ListProducts_ignores_unparsable_values:
  "Handler_ListProducts (\<lambda>s. None) (\<lambda>flt pg s. (Inr ([], 0), s))
     (Some [(''category_id'', ''shoes''), (''min_price'', ''cheap''), (''page'', ''two'')]) () =
   (\<lparr>status = 200, body = ListJSON [] 0 1 10\<rparr>, ())"
  by (simp add: Handler_ListProducts_def ListProducts_params_def Form_Get_def Atoi_examples
      Let_def)

text \<open>
  Claim C8. Every \<open>PaginationParams\<close> that reaches the repository's \<open>List\<close> has a page
  of at least 1 and a limit between 1 and 100: whatever the form holds, the handler
  resolves page and limit to such values, the validator accepts them, so the service
  passes the call on to the repository and never takes its \<open>ErrInvalidInput\<close> branch;
  and the service passes no other pagination on: outside these bounds it returns
  \<open>ErrInvalidInput\<close> without calling the repository.
\<close>

theorem pagination_reaching_List_in_range:
  "(let (flt, pg) = ListProducts_params PF form in
      1 \<le> sint (Page pg) \<and> 1 \<le> sint (Limit pg) \<and> sint (Limit pg) \<le> 100 \<and>
      validator_Struct (PaginationParams_fields pg) \<and>
      service_ListProducts repo_List flt pg s = repo_List flt pg s \<and>
      Handler_ListProducts PF (service_ListProducts repo_List) (Some form) s =
        (case repo_List flt pg s of
           (Inl err, s') \<Rightarrow> (http_Error ''Internal server error'' 500, s')
         | (Inr (prods, totalCount), s') \<Rightarrow>
             (\<lparr>status = 200, body = ListJSON prods totalCount (Page pg) (Limit pg)\<rparr>, s'))) \<and>
   (\<forall>flt' pg'.
      validator_Struct (PaginationParams_fields pg') =
        (1 \<le> sint (Page pg') \<and> 1 \<le> sint (Limit pg') \<and> sint (Limit pg') \<le> 100) \<and>
      (\<not> (1 \<le> sint (Page pg') \<and> 1 \<le> sint (Limit pg') \<and> sint (Limit pg') \<le> 100) \<longrightarrow>
         service_ListProducts repo_List flt' pg' s = (Inl ErrInvalidInput, s)))"
proof -
  obtain flt pg where fp: "ListProducts_params PF form = (flt, pg)"
    by (cases "ListProducts_params PF form")
  have r: "1 \<le> sint (Page pg) \<and> 1 \<le> sint (Limit pg) \<and> sint (Limit pg) \<le> 100"
    using ListProducts_params_range [of PF form] by (simp add: fp)
  then have v: "validator_Struct (PaginationParams_fields pg)"
    by (simp add: validator_pagination)
  have h: "Handler_ListProducts PF (service_ListProducts repo_List) (Some form) s =
        (case repo_List flt pg s of
           (Inl err, s') \<Rightarrow> (http_Error ''Internal server error'' 500, s')
         | (Inr (prods, totalCount), s') \<Rightarrow>
             (\<lparr>status = 200, body = ListJSON prods totalCount (Page pg) (Limit pg)\<rparr>, s'))"
    by (simp add: Handler_ListProducts_def fp service_ListProducts_def v)
  show ?thesis
    unfolding fp using r v h
    by (simp add: service_ListProducts_def validator_pagination)
qed

theorem pagination_reaching_List_in_range_witness:
  "snd (ListProducts_params (\<lambda>s. None) [(''page'', ''two''), (''limit'', ''1000'')]) =
     \<lparr>Page = 1, Limit = 10\<rparr> \<and>
   validator_Struct (PaginationParams_fields \<lparr>Page = 1, Limit = 10\<rparr>) \<and>
   Handler_ListProducts (\<lambda>s. None) (service_ListProducts (\<lambda>flt pg s. (Inr ([], 0), s)))
     (Some [(''page'', ''two''), (''limit'', ''1000'')]) () =
     (\<lparr>status = 200, body = ListJSON [] 0 1 10\<rparr>, ())"
proof -
  have p: "ListProducts_params (\<lambda>s. None) [(''page'', ''two''), (''limit'', ''1000'')] =
      (\<lparr>CategoryID = None, MinPrice = None, MaxPrice = None, Search = None\<rparr>,
       \<lparr>Page = 1, Limit = 10\<rparr>)"
    by (simp add: ListProducts_params_def Form_Get_def Atoi_examples Let_def)
  from pagination_reaching_List_in_range [where PF = "\<lambda>s. None"
      and form = "[(''page'', ''two''), (''limit'', ''1000'')]" and s = "()"
      and repo_List = "\<lambda>flt pg s. (Inr ([], 0), s)"]
  show ?thesis
    by (simp add: p)
qed

end
